theory Spec2Isabelle
  imports Main "HOL-Library.Word" "HOL-Library.Log_Nat"
begin

section \<open>The Peer of the SFU worker (worker/src/RTC/Peer.cpp)\<close>

text \<open>
  The development embeds \<^verbatim>\<open>RTC::Peer\<close>: its SSRC index, its RTCP demultiplexer, its request
  dispatcher, its destruction cascade and its RTCP interval timer. Transports, Producers and
  Consumers are other classes; what the Peer reads from them through accessors is a record
  field here, and what it calls on them appears as an event of the trace the function returns.
  A \<^verbatim>\<open>std::unordered_map\<close> is an association list in the map's iteration order, and a pointer
  to a Transport is the id under which the Peer stores it.
\<close>

subsection \<open>Data model\<close>

type_synonym u32 = "32 word"
type_synonym u64 = "64 word"

text \<open>\<^verbatim>\<open>RTC::Media::Kind\<close>.\<close>

datatype Kind = AUDIO | VIDEO | DEPTH

text \<open>The fields of an RTP encoding that \<^verbatim>\<open>GetConsumer\<close> reads.\<close>

record RtpEncodingParameters =
  ssrc :: u32
  hasFec :: bool
  fec_ssrc :: u32
  hasRtx :: bool
  rtx_ssrc :: u32

record RtpParameters =
  encodings :: "RtpEncodingParameters list"

text \<open>
  A Consumer as the Peer sees it: \<^verbatim>\<open>consumerId\<close>, \<^verbatim>\<open>kind\<close>, \<^verbatim>\<open>GetActive()\<close>,
  \<^verbatim>\<open>GetTransport()\<close> (a null pointer is \<open>None\<close>) and \<^verbatim>\<open>GetParameters()\<close> (a null pointer
  is \<open>None\<close>).
\<close>

record Consumer =
  consumerId :: u32
  c_kind :: Kind
  active :: bool
  c_transport :: "u32 option"
  c_parameters :: "RtpParameters option"

subsection \<open>The SSRC index: \<^verbatim>\<open>Peer::GetConsumer\<close>\<close>

text \<open>
  The inner loop over the encodings of one Consumer: \<open>True\<close> when one of the three
  \<^verbatim>\<open>return consumer\<close> statements is reached.
\<close>

fun GetConsumer_encodings :: "RtpEncodingParameters list \<Rightarrow> u32 \<Rightarrow> bool" where
  "GetConsumer_encodings [] s = False"
| "GetConsumer_encodings (encoding # rest) s =
     (if ssrc encoding = s then True
      else if hasFec encoding \<and> fec_ssrc encoding = s then True
      else if hasRtx encoding \<and> rtx_ssrc encoding = s then True
      else GetConsumer_encodings rest s)"

text \<open>The outer loop over the consumer map; a Consumer without RTP parameters is skipped.\<close>

fun GetConsumer_loop :: "(u32 \<times> Consumer) list \<Rightarrow> u32 \<Rightarrow> Consumer option" where
  "GetConsumer_loop [] s = None"
| "GetConsumer_loop ((k, consumer) # rest) s =
     (case c_parameters consumer of
        None \<Rightarrow> GetConsumer_loop rest s
      | Some rtpParameters \<Rightarrow>
          if GetConsumer_encodings (encodings rtpParameters) s then Some consumer
          else GetConsumer_loop rest s)"

text \<open>
  The reading of the specification: an encoding matches an SSRC when it is its primary
  SSRC, its FEC SSRC (when it has FEC) or its RTX SSRC (when it has RTX); a Consumer claims
  an SSRC when one of the encodings of its RTP parameters matches.
\<close>

definition encoding_matches :: "RtpEncodingParameters \<Rightarrow> u32 \<Rightarrow> bool" where
  "encoding_matches e s \<longleftrightarrow>
     ssrc e = s \<or> (hasFec e \<and> fec_ssrc e = s) \<or> (hasRtx e \<and> rtx_ssrc e = s)"

definition consumer_claims :: "Consumer \<Rightarrow> u32 \<Rightarrow> bool" where
  "consumer_claims c s \<longleftrightarrow>
     (case c_parameters c of
        None \<Rightarrow> False
      | Some p \<Rightarrow> \<exists>e \<in> set (encodings p). encoding_matches e s)"

subsection \<open>Transports, Producers, the Peer\<close>

text \<open>
  A Transport as the Peer sees it: \<^verbatim>\<open>transportId\<close>, \<^verbatim>\<open>HasRemb()\<close> and
  \<^verbatim>\<open>GetProducer(ssrc)\<close>, the Transport's own table from SSRC to the Producer (its id)
  that receives it.
\<close>

record Transport =
  transportId :: u32
  remb :: bool
  rtpListener :: "(u32 \<times> u32) list"

record Producer =
  producerId :: u32
  p_kind :: Kind
  p_transport :: "u32 option"

text \<open>The capabilities descriptor; the Peer reads \<^verbatim>\<open>headerExtensions\<close> and nothing else.\<close>

datatype Json =
    JNull | JBool bool | JInt int | JString string
  | JArray "Json list" | JObject "(string \<times> Json) list"

record RtpCapabilities =
  codecs :: "Json list"
  headerExtensions :: "Json list"

record Peer =
  peerId :: u32
  peerName :: string
  hasCapabilities :: bool
  capabilities :: RtpCapabilities
  transports :: "(u32 \<times> Transport) list"
  producers :: "(u32 \<times> Producer) list"
  consumers :: "(u32 \<times> Consumer) list"

definition GetConsumer :: "Peer \<Rightarrow> u32 \<Rightarrow> Consumer option" where
  "GetConsumer peer s = GetConsumer_loop (consumers peer) s"

text \<open>
  A call on an object stored in a map changes the object where it stands: the map and its
  iteration order stay as they are.
\<close>

fun map_replace :: "(u32 \<times> 'a) list \<Rightarrow> u32 \<Rightarrow> 'a \<Rightarrow> (u32 \<times> 'a) list" where
  "map_replace [] k v = []"
| "map_replace ((k', v') # rest) k v =
     (if k' = k then (k, v) # rest else (k', v') # map_replace rest k v)"

text \<open>
  \<^verbatim>\<open>map[key] = value\<close>: the value under an existing key is replaced where it stands. A new
  key gets the place in the iteration order that the hash table gives it, which C++ leaves
  open: \<open>place\<close> tells it from the keys present and the new key (0 is the front, where the
  table of libstdc++ puts a key whose bucket is empty). The entries already there keep
  their order.
\<close>

definition map_assign ::
  "(u32 list \<Rightarrow> u32 \<Rightarrow> nat) \<Rightarrow> (u32 \<times> 'a) list \<Rightarrow> u32 \<Rightarrow> 'a \<Rightarrow> (u32 \<times> 'a) list" where
  "map_assign place m k v =
     (case map_of m k of
        Some old \<Rightarrow> map_replace m k v
      | None \<Rightarrow> (let n = place (map fst m) k in take n m @ (k, v) # drop n m))"

subsection \<open>RTCP packets and the trace of calls\<close>

record ReceiverReport =
  rr_ssrc :: u32

record SenderReport =
  sr_ssrc :: u32

record SdesChunk =
  sdes_ssrc :: u32

text \<open>
  \<^verbatim>\<open>RTCP::FeedbackPs::MessageType\<close> and \<^verbatim>\<open>RTCP::FeedbackRtp::MessageType\<close>; the last
  constructor of each stands for a value outside the enumeration (the \<^verbatim>\<open>default\<close> label).
\<close>

datatype FeedbackPsMessageType =
    PS_PLI | PS_SLI | PS_RPSI | PS_FIR | PS_TSTR | PS_TSTN | PS_VBCM | PS_PSLEI | PS_ROI
  | PS_AFB | PS_EXT | PS_UNKNOWN

datatype AfbApplication = REMB | AFB_UNKNOWN

datatype FeedbackRtpMessageType =
    RTP_NACK | RTP_TMMBR | RTP_TMMBN | RTP_SR_REQ | RTP_RAMS | RTP_TLLEI | RTP_ECN | RTP_PS
  | RTP_EXT | RTP_UNKNOWN

text \<open>A payload-specific feedback packet; \<open>ps_application\<close> is read for AFB only.\<close>

record FeedbackPs =
  ps_messageType :: FeedbackPsMessageType
  ps_mediaSsrc :: u32
  ps_application :: AfbApplication

record FeedbackRtp =
  rtp_messageType :: FeedbackRtpMessageType
  rtp_mediaSsrc :: u32

text \<open>One sub-packet of a compound, by \<^verbatim>\<open>GetType()\<close>; the compound is the list of them.\<close>

datatype Packet =
    RR "ReceiverReport list"
  | SR "SenderReport list"
  | SDES "SdesChunk list"
  | PSFB FeedbackPs
  | RTPFB FeedbackRtp
  | BYE
  | OTHER_TYPE "8 word"

text \<open>
  A compound packet under construction: its \<^verbatim>\<open>GetSenderReportCount()\<close>,
  \<^verbatim>\<open>GetReceiverReportCount()\<close> and \<^verbatim>\<open>GetSize()\<close>.
\<close>

record CompoundPacket =
  senderReportCount :: nat
  receiverReportCount :: nat
  packetSize :: nat

text \<open>
  What the Peer does to the outside, in order: the answer to a request, calls on its
  children, up-calls to the listener (the Room), notifications, warnings of the log
  (by their format string) and the re-arming of the timer. Debug messages are left out.
\<close>

datatype event =
    Accept
  | AcceptData Json
  | Reject string
  | Producer_Destroy u32
  | Consumer_Destroy u32
  | Transport_Destroy u32
  | Emit u32 string Json
  | OnPeerClosed
  | OnPeerCapabilities
  | Transport_HandleRequest u32
  | Producer_HandleRequest u32
  | Consumer_HandleRequest u32
  | Transport_AddProducer u32 u32
  | Transport_EnableRemb u32
  | Producer_SetTransport u32 u32
  | Consumer_SetTransport u32 u32
  | SendRtcpCompoundPacket u32 CompoundPacket
  | MS_WARN string
  | OnPeerRtcpReceiverReport Consumer ReceiverReport
  | OnPeerRtcpSenderReport u32 SenderReport
  | OnPeerRtcpFeedback Consumer FeedbackPs
  | Consumer_ReceiveNack Consumer FeedbackRtp
  | Timer_Start nat

subsection \<open>The RTCP demultiplexer: \<^verbatim>\<open>Peer::OnTransportRtcpPacket\<close>\<close>

definition Transport_GetProducer :: "Transport \<Rightarrow> u32 \<Rightarrow> u32 option" where
  "Transport_GetProducer transport s = map_of (rtpListener transport) s"

definition OnRtcp_RR_report :: "Peer \<Rightarrow> ReceiverReport \<Rightarrow> event list" where
  "OnRtcp_RR_report peer report =
     (case GetConsumer peer (rr_ssrc report) of
        Some consumer \<Rightarrow> [OnPeerRtcpReceiverReport consumer report]
      | None \<Rightarrow> [MS_WARN ''no Consumer found for received Receiver Report [ssrc:%u]''])"

definition OnRtcp_SR_report :: "Transport \<Rightarrow> SenderReport \<Rightarrow> event list" where
  "OnRtcp_SR_report transport report =
     (case Transport_GetProducer transport (sr_ssrc report) of
        Some producer \<Rightarrow> [OnPeerRtcpSenderReport producer report]
      | None \<Rightarrow> [MS_WARN ''no Producer found for received Sender Report [ssrc:%u]''])"

definition OnRtcp_SDES_chunk :: "Transport \<Rightarrow> SdesChunk \<Rightarrow> event list" where
  "OnRtcp_SDES_chunk transport chunk =
     (case Transport_GetProducer transport (sdes_ssrc chunk) of
        Some producer \<Rightarrow> []
      | None \<Rightarrow> [MS_WARN ''no Producer for received SDES chunk [ssrc:%u]''])"

text \<open>The block shared by the labels PLI, SLI, RPSI and FIR, which AFB falls through to.\<close>

definition OnRtcp_PSFB_consumer :: "Peer \<Rightarrow> FeedbackPs \<Rightarrow> event list" where
  "OnRtcp_PSFB_consumer peer feedback =
     (case GetConsumer peer (ps_mediaSsrc feedback) of
        Some consumer \<Rightarrow>
          if \<not> active consumer then []
          else [OnPeerRtcpFeedback consumer feedback]
      | None \<Rightarrow>
          [MS_WARN ''no Consumer found for received %s Feedback packet [sender ssrc:%u, media ssrc:%u]''])"

definition OnRtcp_PSFB :: "Peer \<Rightarrow> FeedbackPs \<Rightarrow> event list" where
  "OnRtcp_PSFB peer feedback =
     (case ps_messageType feedback of
        PS_AFB \<Rightarrow>
          if ps_application feedback = REMB then []
          else OnRtcp_PSFB_consumer peer feedback
      | PS_PLI \<Rightarrow> OnRtcp_PSFB_consumer peer feedback
      | PS_SLI \<Rightarrow> OnRtcp_PSFB_consumer peer feedback
      | PS_RPSI \<Rightarrow> OnRtcp_PSFB_consumer peer feedback
      | PS_FIR \<Rightarrow> OnRtcp_PSFB_consumer peer feedback
      | _ \<Rightarrow>
          [MS_WARN ''ignoring unsupported %s Feedback packet [sender ssrc:%u, media ssrc:%u]''])"

definition OnRtcp_RTPFB :: "Peer \<Rightarrow> FeedbackRtp \<Rightarrow> event list" where
  "OnRtcp_RTPFB peer feedback =
     (case rtp_messageType feedback of
        RTP_NACK \<Rightarrow>
          (case GetConsumer peer (rtp_mediaSsrc feedback) of
             Some consumer \<Rightarrow> [Consumer_ReceiveNack consumer feedback]
           | None \<Rightarrow>
               [MS_WARN ''no Consumer found for received NACK Feedback packet [sender ssrc:%u, media ssrc:%u]''])
      | _ \<Rightarrow>
          [MS_WARN ''ignoring unsupported %s Feedback packet [sender ssrc:%u, media ssrc:%u]''])"

text \<open>The body of the \<^verbatim>\<open>while\<close> loop, for one sub-packet.\<close>

fun OnRtcp_packet :: "Peer \<Rightarrow> Transport \<Rightarrow> Packet \<Rightarrow> event list" where
  "OnRtcp_packet peer transport (RR reports) = concat (map (OnRtcp_RR_report peer) reports)"
| "OnRtcp_packet peer transport (PSFB feedback) = OnRtcp_PSFB peer feedback"
| "OnRtcp_packet peer transport (RTPFB feedback) = OnRtcp_RTPFB peer feedback"
| "OnRtcp_packet peer transport (SR reports) = concat (map (OnRtcp_SR_report transport) reports)"
| "OnRtcp_packet peer transport (SDES chunks) = concat (map (OnRtcp_SDES_chunk transport) chunks)"
| "OnRtcp_packet peer transport BYE = []"
| "OnRtcp_packet peer transport (OTHER_TYPE t) = [MS_WARN ''unhandled RTCP type received [type:%u]'']"

text \<open>The loop follows \<^verbatim>\<open>GetNext()\<close> to the end of the compound.\<close>

fun OnTransportRtcpPacket :: "Peer \<Rightarrow> Transport \<Rightarrow> Packet list \<Rightarrow> event list" where
  "OnTransportRtcpPacket peer transport [] = []"
| "OnTransportRtcpPacket peer transport (packet # next) =
     OnRtcp_packet peer transport packet @ OnTransportRtcpPacket peer transport next"

subsection \<open>Requests and the collaborators' code\<close>

datatype MethodId =
    PEER_CLOSE | PEER_DUMP | PEER_SET_CAPABILITIES | PEER_CREATE_TRANSPORT
  | PEER_CREATE_PRODUCER
  | TRANSPORT_CLOSE | TRANSPORT_DUMP | TRANSPORT_SET_REMOTE_DTLS_PARAMETERS
  | TRANSPORT_SET_MAX_BITRATE | TRANSPORT_CHANGE_UFRAG_PWD
  | PRODUCER_CLOSE | PRODUCER_DUMP | PRODUCER_RECEIVE | PRODUCER_SET_RTP_RAW_EVENT
  | PRODUCER_SET_RTP_OBJECT_EVENT | PRODUCER_SET_TRANSPORT
  | CONSUMER_DUMP | CONSUMER_SET_TRANSPORT | CONSUMER_DISABLE
  | OTHER_METHOD

text \<open>
  A request: its method and the members of its \<^verbatim>\<open>internal\<close> and \<^verbatim>\<open>data\<close> JSON objects.
  JSON numbers are integers here.
\<close>

record Request =
  methodId :: MethodId
  internal :: "(string \<times> Json) list"
  data :: "(string \<times> Json) list"

text \<open>\<^verbatim>\<open>object[key]\<close> (null when the key is absent), \<^verbatim>\<open>isUInt\<close>, \<^verbatim>\<open>asUInt\<close>, \<^verbatim>\<open>isString\<close>, \<^verbatim>\<open>asString\<close>.\<close>

definition Json_get :: "(string \<times> Json) list \<Rightarrow> string \<Rightarrow> Json" where
  "Json_get obj key = (case map_of obj key of None \<Rightarrow> JNull | Some v \<Rightarrow> v)"

fun isUInt :: "Json \<Rightarrow> bool" where
  "isUInt (JInt n) = (0 \<le> n \<and> n \<le> 4294967295)"
| "isUInt _ = False"

fun asUInt :: "Json \<Rightarrow> u32" where
  "asUInt (JInt n) = word_of_int n"
| "asUInt _ = 0"

fun isString :: "Json \<Rightarrow> bool" where
  "isString (JString s) = True"
| "isString _ = False"

fun asString :: "Json \<Rightarrow> string" where
  "asString (JString s) = s"
| "asString _ = []"

text \<open>
  The code of other classes that the Peer calls and whose result it uses, and the constants
  of \<^verbatim>\<open>RTC::RTCP\<close> it reads. A constructor or method that may throw a
  \<^verbatim>\<open>MediaSoupError\<close> returns its message on the left. \<open>AddProducer\<close> returns the
  Transport as the call leaves it, and the message when it throws. \<open>reduceCapabilities\<close>
  is what the listener's \<^verbatim>\<open>OnPeerCapabilities\<close> does to the capabilities it is handed; what
  else the Room does during that call (it may hand Consumers to the Peer) is not modelled.
  \<open>GetTransmissionRate\<close> is taken to return 32 bits, as the \<^verbatim>\<open>rate\<close> it is added to.
  \<open>insertPlace\<close> is the place \<^verbatim>\<open>std::unordered_map\<close> gives a new key.
\<close>

record Collaborators =
  new_RtpCapabilities :: "(string \<times> Json) list \<Rightarrow> string + RtpCapabilities"
  reduceCapabilities :: "RtpCapabilities \<Rightarrow> RtpCapabilities"
  RtpCapabilities_ToJson :: "RtpCapabilities \<Rightarrow> Json"
  new_Transport :: "u32 \<Rightarrow> (string \<times> Json) list \<Rightarrow> string + Transport"
  Transport_ToJson :: "Transport \<Rightarrow> Json"
  Producer_ToJson :: "Producer \<Rightarrow> Json"
  Consumer_ToJson :: "Consumer \<Rightarrow> Json"
  GetKind :: "string \<Rightarrow> string + Kind"
  new_Producer :: "u32 \<Rightarrow> Kind \<Rightarrow> string + Producer"
  AddProducer :: "Transport \<Rightarrow> Producer \<Rightarrow> Transport \<times> string option"
  Consumer_GetRtcp :: "Consumer \<Rightarrow> CompoundPacket \<Rightarrow> u64 \<Rightarrow> CompoundPacket"
  Producer_GetRtcp :: "Producer \<Rightarrow> CompoundPacket \<Rightarrow> u64 \<Rightarrow> CompoundPacket"
  GetTransmissionRate :: "Consumer \<Rightarrow> u64 \<Rightarrow> u32"
  MaxVideoIntervalMs :: nat
  BufferSize :: nat
  insertPlace :: "u32 list \<Rightarrow> u32 \<Rightarrow> nat"

text \<open>
  How a call of the Peer ends: it returns, it throws a \<^verbatim>\<open>MediaSoupError\<close> to its caller, or
  it follows a pointer to a Transport that the Peer no longer holds. \<open>after\<close> is the Peer
  left behind, \<open>None\<close> once \<^verbatim>\<open>delete this\<close> has run.
\<close>

datatype completion = Returned | Threw string | Dangling

record Outcome =
  trace :: "event list"
  after :: "Peer option"
  completion :: completion

definition returns :: "event list \<Rightarrow> Peer \<Rightarrow> Outcome" where
  "returns evs peer = \<lparr>trace = evs, after = Some peer, completion = Returned\<rparr>"

definition throws :: "event list \<Rightarrow> Peer \<Rightarrow> string \<Rightarrow> Outcome" where
  "throws evs peer msg = \<lparr>trace = evs, after = Some peer, completion = Threw msg\<rparr>"

subsection \<open>\<^verbatim>\<open>Peer::Destroy\<close> and \<^verbatim>\<open>Peer::ToJson\<close>\<close>

text \<open>
  Each of the three loops takes the first entry of the map, erases it and destroys the
  object, until the map is empty. The result is the map left and the calls made. What a
  child does inside its own \<^verbatim>\<open>Destroy\<close> is the child's code and not part of the trace.
\<close>

fun Destroy_loop :: "(u32 \<Rightarrow> event) \<Rightarrow> (u32 \<times> 'a) list \<Rightarrow> (u32 \<times> 'a) list \<times> event list" where
  "Destroy_loop destroy [] = ([], [])"
| "Destroy_loop destroy ((k, v) # rest) =
     (let (m, evs) = Destroy_loop destroy rest in (m, destroy k # evs))"

definition Destroy :: "Peer \<Rightarrow> event list" where
  "Destroy peer =
     (let (ps, evs1) = Destroy_loop Producer_Destroy (producers peer);
          (cs, evs2) = Destroy_loop Consumer_Destroy (consumers peer);
          (ts, evs3) = Destroy_loop Transport_Destroy (transports peer)
      in evs1 @ evs2 @ evs3 @
         [Emit (peerId peer) ''close'' (JObject [(''class'', JString ''Peer'')]),
          OnPeerClosed])"

definition ToJson :: "Collaborators \<Rightarrow> Peer \<Rightarrow> Json" where
  "ToJson env peer =
     JObject
       ([(''peerId'', JInt (uint (peerId peer))), (''peerName'', JString (peerName peer))] @
        (if hasCapabilities peer
         then [(''capabilities'', RtpCapabilities_ToJson env (capabilities peer))] else []) @
        [(''transports'', JArray (map (\<lambda>kv. Transport_ToJson env (snd kv)) (transports peer))),
         (''producers'', JArray (map (\<lambda>kv. Producer_ToJson env (snd kv)) (producers peer))),
         (''consumers'', JArray (map (\<lambda>kv. Consumer_ToJson env (snd kv)) (consumers peer)))])"

subsection \<open>The request dispatcher: \<^verbatim>\<open>Peer::HandleRequest\<close>\<close>

text \<open>
  The three lookups return the id read from the request with the object found (\<open>None\<close> for
  \<^verbatim>\<open>nullptr\<close>), or the message of the error they throw.
\<close>

definition GetTransportFromRequest :: "Peer \<Rightarrow> Request \<Rightarrow> string + (u32 \<times> Transport option)" where
  "GetTransportFromRequest peer request =
     (let jsonTransportId = Json_get (internal request) ''transportId'' in
      if \<not> isUInt jsonTransportId then Inl ''Request has not numeric internal.transportId''
      else Inr (asUInt jsonTransportId, map_of (transports peer) (asUInt jsonTransportId)))"

definition GetProducerFromRequest :: "Peer \<Rightarrow> Request \<Rightarrow> string + (u32 \<times> Producer option)" where
  "GetProducerFromRequest peer request =
     (let jsonProducerId = Json_get (internal request) ''producerId'' in
      if \<not> isUInt jsonProducerId then Inl ''Request has not numeric internal.producerId''
      else Inr (asUInt jsonProducerId, map_of (producers peer) (asUInt jsonProducerId)))"

definition GetConsumerFromRequest :: "Peer \<Rightarrow> Request \<Rightarrow> string + (u32 \<times> Consumer option)" where
  "GetConsumerFromRequest peer request =
     (let jsonConsumerId = Json_get (internal request) ''consumerId'' in
      if \<not> isUInt jsonConsumerId then Inl ''Request has not numeric internal.consumerId''
      else Inr (asUInt jsonConsumerId, map_of (consumers peer) (asUInt jsonConsumerId)))"

text \<open>
  Modelled from the spec: \<^verbatim>\<open>Producer::SetTransport\<close>, \<^verbatim>\<open>Consumer::SetTransport\<close> and
  \<^verbatim>\<open>Transport::EnableRemb\<close> are code of Producer.cpp, Consumer.cpp and Transport.cpp, which
  are not among the sources. The first two set the current Transport of the object, the
  third turns REMB on.
\<close>

definition Producer_SetTransport_on :: "Peer \<Rightarrow> u32 \<Rightarrow> Producer \<Rightarrow> u32 \<Rightarrow> Peer" where
  "Producer_SetTransport_on peer pid producer tid =
     peer\<lparr>producers := map_replace (producers peer) pid (producer\<lparr>p_transport := Some tid\<rparr>)\<rparr>"

definition Consumer_SetTransport_on :: "Peer \<Rightarrow> u32 \<Rightarrow> Consumer \<Rightarrow> u32 \<Rightarrow> Peer" where
  "Consumer_SetTransport_on peer cid consumer tid =
     peer\<lparr>consumers := map_replace (consumers peer) cid (consumer\<lparr>c_transport := Some tid\<rparr>)\<rparr>"

definition Transport_EnableRemb_on :: "Peer \<Rightarrow> u32 \<Rightarrow> Transport \<Rightarrow> Peer" where
  "Transport_EnableRemb_on peer tid transport =
     peer\<lparr>transports := map_replace (transports peer) tid (transport\<lparr>remb := True\<rparr>)\<rparr>"

definition HandleRequest_PEER_SET_CAPABILITIES :: "Collaborators \<Rightarrow> Peer \<Rightarrow> Request \<Rightarrow> Outcome" where
  "HandleRequest_PEER_SET_CAPABILITIES env peer request =
     (if hasCapabilities peer then returns [Reject ''peer capabilities already set''] peer
      else
        case new_RtpCapabilities env (data request) of
          Inl error \<Rightarrow> returns [Reject error] peer
        | Inr caps \<Rightarrow>
            (let peer1 = peer\<lparr>capabilities := caps, hasCapabilities := True\<rparr>;
                 peer2 = peer1\<lparr>capabilities := reduceCapabilities env (capabilities peer1)\<rparr>
             in returns
                  [OnPeerCapabilities,
                   AcceptData (RtpCapabilities_ToJson env (capabilities peer2))]
                  peer2))"

definition HandleRequest_PEER_CREATE_TRANSPORT :: "Collaborators \<Rightarrow> Peer \<Rightarrow> Request \<Rightarrow> Outcome" where
  "HandleRequest_PEER_CREATE_TRANSPORT env peer request =
     (case GetTransportFromRequest peer request of
        Inl error \<Rightarrow> returns [Reject error] peer
      | Inr (tid, Some transport) \<Rightarrow> returns [Reject ''Transport already exists''] peer
      | Inr (tid, None) \<Rightarrow>
          (case new_Transport env tid (data request) of
             Inl error \<Rightarrow> returns [Reject error] peer
           | Inr transport \<Rightarrow>
               returns [AcceptData (Transport_ToJson env transport)]
                 (peer\<lparr>transports :=
                         map_assign (insertPlace env) (transports peer) tid transport\<rparr>)))"

text \<open>
  The check of \<^verbatim>\<open>kind\<close> stands between the \<^verbatim>\<open>try\<close> blocks, so its
  \<^verbatim>\<open>MS_THROW_ERROR\<close> leaves \<^verbatim>\<open>HandleRequest\<close>; \<^verbatim>\<open>GetKind\<close> and the constructor are
  inside the last \<^verbatim>\<open>try\<close>.
\<close>

definition HandleRequest_PEER_CREATE_PRODUCER :: "Collaborators \<Rightarrow> Peer \<Rightarrow> Request \<Rightarrow> Outcome" where
  "HandleRequest_PEER_CREATE_PRODUCER env peer request =
     (if \<not> hasCapabilities peer then returns [Reject ''peer capabilities are not yet set''] peer
      else
        case GetProducerFromRequest peer request of
          Inl error \<Rightarrow> returns [Reject error] peer
        | Inr (pid, Some producer) \<Rightarrow> returns [Reject ''Producer already exists''] peer
        | Inr (pid, None) \<Rightarrow>
            (case GetTransportFromRequest peer request of
               Inl error \<Rightarrow> returns [Reject error] peer
             | Inr (tid, None) \<Rightarrow> returns [Reject ''Transport does not exist''] peer
             | Inr (tid, Some transport) \<Rightarrow>
                 if \<not> isString (Json_get (data request) ''kind'')
                 then throws [] peer ''missing kind''
                 else
                   (let kind = asString (Json_get (data request) ''kind'') in
                    case GetKind env kind of
                      Inl error \<Rightarrow> returns [Reject error] peer
                    | Inr k \<Rightarrow>
                        (case new_Producer env pid k of
                           Inl error \<Rightarrow> returns [Reject error] peer
                         | Inr producer \<Rightarrow>
                             (let peer1 =
                                    peer\<lparr>producers :=
                                           map_assign (insertPlace env) (producers peer) pid producer\<rparr>
                              in returns [Producer_SetTransport pid tid, Accept]
                                   (Producer_SetTransport_on peer1 pid producer tid))))))"

definition HandleRequest_TRANSPORT :: "Peer \<Rightarrow> Request \<Rightarrow> Outcome" where
  "HandleRequest_TRANSPORT peer request =
     (case GetTransportFromRequest peer request of
        Inl error \<Rightarrow> returns [Reject error] peer
      | Inr (tid, None) \<Rightarrow> returns [Reject ''Transport does not exist''] peer
      | Inr (tid, Some transport) \<Rightarrow> returns [Transport_HandleRequest tid] peer)"

definition HandleRequest_PRODUCER :: "Peer \<Rightarrow> Request \<Rightarrow> Outcome" where
  "HandleRequest_PRODUCER peer request =
     (case GetProducerFromRequest peer request of
        Inl error \<Rightarrow> returns [Reject error] peer
      | Inr (pid, None) \<Rightarrow> returns [Reject ''Producer does not exist''] peer
      | Inr (pid, Some producer) \<Rightarrow> returns [Producer_HandleRequest pid] peer)"

definition HandleRequest_CONSUMER :: "Peer \<Rightarrow> Request \<Rightarrow> Outcome" where
  "HandleRequest_CONSUMER peer request =
     (case GetConsumerFromRequest peer request of
        Inl error \<Rightarrow> returns [Reject error] peer
      | Inr (cid, None) \<Rightarrow> returns [Reject ''Consumer does not exist''] peer
      | Inr (cid, Some consumer) \<Rightarrow> returns [Consumer_HandleRequest cid] peer)"

text \<open>
  \<^verbatim>\<open>PRODUCER_SET_TRANSPORT\<close>: \<^verbatim>\<open>AddProducer\<close> on the new Transport, inside a \<^verbatim>\<open>try\<close>;
  then the Producer's Transport of before is read and asked \<^verbatim>\<open>HasRemb()\<close>, the new
  Transport gets \<^verbatim>\<open>EnableRemb()\<close> when it answers yes, and the Producer gets the new
  Transport.
\<close>

definition HandleRequest_PRODUCER_SET_TRANSPORT :: "Collaborators \<Rightarrow> Peer \<Rightarrow> Request \<Rightarrow> Outcome" where
  "HandleRequest_PRODUCER_SET_TRANSPORT env peer request =
     (case GetProducerFromRequest peer request of
        Inl error \<Rightarrow> returns [Reject error] peer
      | Inr (pid, None) \<Rightarrow> returns [Reject ''Producer does not exist''] peer
      | Inr (pid, Some producer) \<Rightarrow>
          (case GetTransportFromRequest peer request of
             Inl error \<Rightarrow> returns [Reject error] peer
           | Inr (tid, None) \<Rightarrow> returns [Reject ''Transport does not exist''] peer
           | Inr (tid, Some transport) \<Rightarrow>
               (let (transport1, thrown) = AddProducer env transport producer;
                    peer1 = peer\<lparr>transports := map_replace (transports peer) tid transport1\<rparr>
                in case thrown of
                     Some error \<Rightarrow> returns [Transport_AddProducer tid pid, Reject error] peer1
                   | None \<Rightarrow>
                       (case p_transport producer of
                          None \<Rightarrow>
                            returns [Transport_AddProducer tid pid, Producer_SetTransport pid tid, Accept]
                              (Producer_SetTransport_on peer1 pid producer tid)
                        | Some previous \<Rightarrow>
                            (case map_of (transports peer1) previous of
                               None \<Rightarrow>
                                 \<lparr>trace = [Transport_AddProducer tid pid], after = Some peer1,
                                  completion = Dangling\<rparr>
                             | Some previousTransport \<Rightarrow>
                                 if remb previousTransport
                                 then
                                   returns
                                     [Transport_AddProducer tid pid, Transport_EnableRemb tid,
                                      Producer_SetTransport pid tid, Accept]
                                     (Producer_SetTransport_on
                                        (Transport_EnableRemb_on peer1 tid transport1) pid producer tid)
                                 else
                                   returns
                                     [Transport_AddProducer tid pid, Producer_SetTransport pid tid, Accept]
                                     (Producer_SetTransport_on peer1 pid producer tid))))))"

definition HandleRequest_CONSUMER_SET_TRANSPORT :: "Peer \<Rightarrow> Request \<Rightarrow> Outcome" where
  "HandleRequest_CONSUMER_SET_TRANSPORT peer request =
     (case GetConsumerFromRequest peer request of
        Inl error \<Rightarrow> returns [Reject error] peer
      | Inr (cid, None) \<Rightarrow> returns [Reject ''Consumer does not exist''] peer
      | Inr (cid, Some consumer) \<Rightarrow>
          (case GetTransportFromRequest peer request of
             Inl error \<Rightarrow> returns [Reject error] peer
           | Inr (tid, None) \<Rightarrow> returns [Reject ''Transport does not exist''] peer
           | Inr (tid, Some transport) \<Rightarrow>
               returns [Consumer_SetTransport cid tid, Accept]
                 (Consumer_SetTransport_on peer cid consumer tid)))"

fun HandleRequest :: "Collaborators \<Rightarrow> Peer \<Rightarrow> Request \<Rightarrow> Outcome" where
  "HandleRequest env peer request =
     (case methodId request of
        PEER_CLOSE \<Rightarrow> \<lparr>trace = Destroy peer @ [Accept], after = None, completion = Returned\<rparr>
      | PEER_DUMP \<Rightarrow> returns [AcceptData (ToJson env peer)] peer
      | PEER_SET_CAPABILITIES \<Rightarrow> HandleRequest_PEER_SET_CAPABILITIES env peer request
      | PEER_CREATE_TRANSPORT \<Rightarrow> HandleRequest_PEER_CREATE_TRANSPORT env peer request
      | PEER_CREATE_PRODUCER \<Rightarrow> HandleRequest_PEER_CREATE_PRODUCER env peer request
      | TRANSPORT_CLOSE \<Rightarrow> HandleRequest_TRANSPORT peer request
      | TRANSPORT_DUMP \<Rightarrow> HandleRequest_TRANSPORT peer request
      | TRANSPORT_SET_REMOTE_DTLS_PARAMETERS \<Rightarrow> HandleRequest_TRANSPORT peer request
      | TRANSPORT_SET_MAX_BITRATE \<Rightarrow> HandleRequest_TRANSPORT peer request
      | TRANSPORT_CHANGE_UFRAG_PWD \<Rightarrow> HandleRequest_TRANSPORT peer request
      | PRODUCER_CLOSE \<Rightarrow> HandleRequest_PRODUCER peer request
      | PRODUCER_DUMP \<Rightarrow> HandleRequest_PRODUCER peer request
      | PRODUCER_RECEIVE \<Rightarrow> HandleRequest_PRODUCER peer request
      | PRODUCER_SET_RTP_RAW_EVENT \<Rightarrow> HandleRequest_PRODUCER peer request
      | PRODUCER_SET_RTP_OBJECT_EVENT \<Rightarrow> HandleRequest_PRODUCER peer request
      | PRODUCER_SET_TRANSPORT \<Rightarrow> HandleRequest_PRODUCER_SET_TRANSPORT env peer request
      | CONSUMER_DUMP \<Rightarrow> HandleRequest_CONSUMER peer request
      | CONSUMER_SET_TRANSPORT \<Rightarrow> HandleRequest_CONSUMER_SET_TRANSPORT peer request
      | CONSUMER_DISABLE \<Rightarrow> HandleRequest_CONSUMER peer request
      | OTHER_METHOD \<Rightarrow> returns [Reject ''unknown method''] peer)"

subsection \<open>Sending RTCP: \<^verbatim>\<open>Peer::SendRtcp\<close>\<close>

text \<open>\<^verbatim>\<open>new CompoundPacket()\<close>: no report, no byte.\<close>

definition CompoundPacket_new :: CompoundPacket where
  "CompoundPacket_new = \<lparr>senderReportCount = 0, receiverReportCount = 0, packetSize = 0\<rparr>"

text \<open>
  The loop over the Consumers, for the Transport stored under \<open>tid\<close>. The second component
  is the compound packet the loop ends with, or \<open>None\<close> when the \<^verbatim>\<open>return\<close> of the size
  check has left \<^verbatim>\<open>SendRtcp\<close>.
\<close>

fun SendRtcp_consumers ::
  "Collaborators \<Rightarrow> u32 \<Rightarrow> u64 \<Rightarrow> (u32 \<times> Consumer) list \<Rightarrow> CompoundPacket \<Rightarrow>
     event list \<times> CompoundPacket option" where
  "SendRtcp_consumers env tid now [] packet = ([], Some packet)"
| "SendRtcp_consumers env tid now ((k, consumer) # rest) packet =
     (if c_transport consumer \<noteq> Some tid then SendRtcp_consumers env tid now rest packet
      else
        (let packet1 = Consumer_GetRtcp env consumer packet now in
         if senderReportCount packet1 \<noteq> 0 then
           if packetSize packet1 > BufferSize env
           then ([MS_WARN ''cannot send RTCP packet, size too big (%zu bytes)''], None)
           else
             (let (evs, r) = SendRtcp_consumers env tid now rest CompoundPacket_new
              in (SendRtcpCompoundPacket tid packet1 # evs, r))
         else SendRtcp_consumers env tid now rest packet1))"

fun SendRtcp_producers ::
  "Collaborators \<Rightarrow> u32 \<Rightarrow> u64 \<Rightarrow> (u32 \<times> Producer) list \<Rightarrow> CompoundPacket \<Rightarrow> CompoundPacket" where
  "SendRtcp_producers env tid now [] packet = packet"
| "SendRtcp_producers env tid now ((k, producer) # rest) packet =
     (if p_transport producer \<noteq> Some tid then SendRtcp_producers env tid now rest packet
      else SendRtcp_producers env tid now rest (Producer_GetRtcp env producer packet now))"

text \<open>The loop over the Transports; both size checks end it with \<^verbatim>\<open>return\<close>.\<close>

fun SendRtcp_transports ::
  "Collaborators \<Rightarrow> Peer \<Rightarrow> u64 \<Rightarrow> (u32 \<times> Transport) list \<Rightarrow> event list" where
  "SendRtcp_transports env peer now [] = []"
| "SendRtcp_transports env peer now ((tid, transport) # rest) =
     (case SendRtcp_consumers env tid now (consumers peer) CompoundPacket_new of
        (evs, None) \<Rightarrow> evs
      | (evs, Some packet1) \<Rightarrow>
          (let packet2 = SendRtcp_producers env tid now (producers peer) packet1 in
           if receiverReportCount packet2 \<noteq> 0 then
             if packetSize packet2 > BufferSize env
             then evs @ [MS_WARN ''cannot send RTCP packet, size too big (%zu bytes)'']
             else evs @ [SendRtcpCompoundPacket tid packet2] @
                    SendRtcp_transports env peer now rest
           else evs @ SendRtcp_transports env peer now rest))"

definition SendRtcp :: "Collaborators \<Rightarrow> Peer \<Rightarrow> u64 \<Rightarrow> event list" where
  "SendRtcp env peer now = SendRtcp_transports env peer now (transports peer)"

subsection \<open>The RTCP interval timer: \<^verbatim>\<open>Peer::OnTimer\<close>\<close>

text \<open>
  \<^verbatim>\<open>float\<close> arithmetic, for the values the timer meets (zero and positive numbers in the
  normal range): IEEE 754 binary32 has 24 significant bits, and every operation rounds its
  exact result to the nearest such number, to the one with an even last bit in a tie
  (the arithmetic of SSE and of AArch64, where every \<^verbatim>\<open>float\<close> operation is evaluated in
  single precision). \<open>float_exponent x\<close> is the \<open>e\<close> with \<open>2 ^ e \<le> x < 2 ^ (e + 1)\<close>.
\<close>

definition round_half_even :: "rat \<Rightarrow> int" where
  "round_half_even q =
     (let n = \<lfloor>q\<rfloor>; d = q - of_int n
      in if d < 1 / 2 then n else if 1 / 2 < d then n + 1 else if even n then n else n + 1)"

definition float_exponent :: "rat \<Rightarrow> int" where
  "float_exponent x =
     (if 1 \<le> x then int (floorlog 2 (nat \<lfloor>x\<rfloor>)) - 1
      else - int (floorlog 2 (nat \<lceil>1 / x\<rceil> - 1)))"

definition float_round :: "rat \<Rightarrow> rat" where
  "float_round x =
     (if x \<le> 0 then 0
      else (let ulp = 2 powi (float_exponent x - 23)
            in of_int (round_half_even (x / ulp)) * ulp))"

text \<open>
  The loop that sums the rates: each Consumer's rate in bits per second is divided by 1000
  and added to the 32-bit \<open>rate\<close>.
\<close>

fun OnTimer_rate :: "Collaborators \<Rightarrow> u64 \<Rightarrow> (u32 \<times> Consumer) list \<Rightarrow> u32 \<Rightarrow> u32" where
  "OnTimer_rate env now [] rate = rate"
| "OnTimer_rate env now ((k, consumer) # rest) rate =
     OnTimer_rate env now rest (rate + GetTransmissionRate env consumer now div 1000)"

text \<open>The interval before the jitter is applied.\<close>

definition OnTimer_interval :: "Collaborators \<Rightarrow> Peer \<Rightarrow> u64 \<Rightarrow> nat" where
  "OnTimer_interval env peer now =
     (let interval = MaxVideoIntervalMs env in
      if consumers peer \<noteq> [] then
        (let rate = OnTimer_rate env now (consumers peer) 0;
             interval1 = (if rate \<noteq> 0 then unat ((360000 :: u32) div rate) else interval)
         in if interval1 > MaxVideoIntervalMs env then MaxVideoIntervalMs env else interval1)
      else interval)"

text \<open>
  \<^verbatim>\<open>interval *= static_cast<float>(random) / 10\<close>: the random number becomes a \<^verbatim>\<open>float\<close>
  and is divided by 10, the 64-bit interval becomes a \<^verbatim>\<open>float\<close> and is multiplied by
  the quotient; \<open>OnTimer_product\<close> is that \<^verbatim>\<open>float\<close>. The assignment to the
  \<^verbatim>\<open>uint64_t\<close> interval converts it and keeps its integral part.
\<close>

definition OnTimer_product :: "nat \<Rightarrow> u32 \<Rightarrow> rat" where
  "OnTimer_product interval random =
     float_round (float_round (of_nat interval) *
                  float_round (float_round (of_nat (unat random)) / float_round 10))"

definition OnTimer_jitter :: "nat \<Rightarrow> u32 \<Rightarrow> nat" where
  "OnTimer_jitter interval random = nat \<lfloor>OnTimer_product interval random\<rfloor>"

text \<open>
  A tick of the timer at \<open>time\<close> (\<^verbatim>\<open>DepLibUV::GetTime()\<close>, which the 32-bit \<^verbatim>\<open>now\<close>
  cuts to its low half) with the result \<open>random\<close> of \<^verbatim>\<open>GetRandomUInt(5, 15)\<close>.
\<close>

definition OnTimer :: "Collaborators \<Rightarrow> Peer \<Rightarrow> u64 \<Rightarrow> u32 \<Rightarrow> event list" where
  "OnTimer env peer time random =
     (let now = (ucast (ucast time :: u32) :: u64)
      in SendRtcp env peer now @
         [Timer_Start (OnTimer_jitter (OnTimer_interval env peer now) random)])"

text \<open>
  The words of the specification: the Consumers' transmission rates in bits per second are
  summed and the sum is converted to kbit/s.
\<close>

definition summed_rate_kbps :: "Collaborators \<Rightarrow> u64 \<Rightarrow> (u32 \<times> Consumer) list \<Rightarrow> rat" where
  "summed_rate_kbps env now cs =
     of_nat (sum_list (map (\<lambda>kv. unat (GetTransmissionRate env (snd kv) now)) cs)) / 1000"

text \<open>
  The rate as the loop computes it: each Consumer's rate in bits per second is divided by
  1000, rounding down, and the quotients are summed in 32 bits.
\<close>

definition rate_kbps :: "Collaborators \<Rightarrow> u64 \<Rightarrow> (u32 \<times> Consumer) list \<Rightarrow> nat" where
  "rate_kbps env now cs =
     sum_list (map (\<lambda>kv. unat (GetTransmissionRate env (snd kv) now) div 1000) cs) mod 2 ^ 32"

subsection \<open>A scenario: the Peer alice\<close>

text \<open>
  Stand-ins for the collaborators: capabilities are the \<^verbatim>\<open>codecs\<close> array of the request, a
  new Transport has no REMB, \<^verbatim>\<open>AddProducer\<close> succeeds, every Consumer contributes a sender
  report of 52 bytes and every Producer a receiver report of 32 bytes, Consumer 200 sends
  500 kbit/s and every other Consumer 1500 kbit/s, a new key of a map is iterated first.
\<close>

definition stub :: Collaborators where
  "stub =
     \<lparr>new_RtpCapabilities =
        (\<lambda>d. case Json_get d ''codecs'' of
                JArray cs \<Rightarrow> Inr \<lparr>codecs = cs, headerExtensions = []\<rparr>
              | _ \<Rightarrow> Inl ''missing codecs''),
      reduceCapabilities = (\<lambda>caps. caps),
      RtpCapabilities_ToJson = (\<lambda>caps. JObject [(''codecs'', JArray (codecs caps))]),
      new_Transport = (\<lambda>tid d. Inr \<lparr>transportId = tid, remb = False, rtpListener = []\<rparr>),
      Transport_ToJson = (\<lambda>t. JObject [(''transportId'', JInt (uint (transportId t)))]),
      Producer_ToJson = (\<lambda>p. JObject [(''producerId'', JInt (uint (producerId p)))]),
      Consumer_ToJson = (\<lambda>c. JObject [(''consumerId'', JInt (uint (consumerId c)))]),
      GetKind =
        (\<lambda>kind. if kind = ''audio'' then Inr AUDIO
                else if kind = ''video'' then Inr VIDEO
                else if kind = ''depth'' then Inr DEPTH
                else Inl ''invalid media kind''),
      new_Producer = (\<lambda>pid k. Inr \<lparr>producerId = pid, p_kind = k, p_transport = None\<rparr>),
      AddProducer = (\<lambda>t p. (t, None)),
      Consumer_GetRtcp =
        (\<lambda>c packet now.
           packet\<lparr>senderReportCount := senderReportCount packet + 1,
                  packetSize := packetSize packet + 52\<rparr>),
      Producer_GetRtcp =
        (\<lambda>p packet now.
           packet\<lparr>receiverReportCount := receiverReportCount packet + 1,
                  packetSize := packetSize packet + 32\<rparr>),
      GetTransmissionRate = (\<lambda>c now. if consumerId c = 200 then 500000 else 1500000),
      MaxVideoIntervalMs = 1000,
      BufferSize = 65536,
      insertPlace = (\<lambda>keys k. 0)\<rparr>"

definition t10 :: Transport where
  "t10 = \<lparr>transportId = 10, remb = True, rtpListener = [(0x1111, 100)]\<rparr>"

definition t11 :: Transport where
  "t11 = \<lparr>transportId = 11, remb = False, rtpListener = []\<rparr>"

definition p100 :: Producer where
  "p100 = \<lparr>producerId = 100, p_kind = VIDEO, p_transport = Some 10\<rparr>"

definition p101 :: Producer where
  "p101 = \<lparr>producerId = 101, p_kind = AUDIO, p_transport = None\<rparr>"

definition c200 :: Consumer where
  "c200 =
     \<lparr>consumerId = 200, c_kind = VIDEO, active = True, c_transport = Some 10,
      c_parameters =
        Some \<lparr>encodings =
                [\<lparr>ssrc = 0xDEADBEEF, hasFec = False, fec_ssrc = 0,
                  hasRtx = True, rtx_ssrc = 0xBEEF\<rparr>]\<rparr>\<rparr>"

definition c201 :: Consumer where
  "c201 =
     \<lparr>consumerId = 201, c_kind = AUDIO, active = False, c_transport = Some 11,
      c_parameters =
        Some \<lparr>encodings =
                [\<lparr>ssrc = 0x2010, hasFec = False, fec_ssrc = 0,
                  hasRtx = False, rtx_ssrc = 0\<rparr>]\<rparr>\<rparr>"

definition alice :: Peer where
  "alice =
     \<lparr>peerId = 1, peerName = ''alice'', hasCapabilities = True,
      capabilities = \<lparr>codecs = [JString ''opus''], headerExtensions = []\<rparr>,
      transports = [(10, t10), (11, t11)],
      producers = [(100, p100), (101, p101)],
      consumers = [(200, c200), (201, c201)]\<rparr>"

definition request_for :: "MethodId \<Rightarrow> (string \<times> Json) list \<Rightarrow> (string \<times> Json) list \<Rightarrow> Request" where
  "request_for m i d = \<lparr>methodId = m, internal = i, data = d\<rparr>"

text \<open>
  A Peer whose Transport 10 carries Consumer 200 and whose Transport 11 carries Producer 100.
\<close>

definition carol :: Peer where
  "carol = alice\<lparr>consumers := [(200, c200)],
                  producers := [(100, p100\<lparr>p_transport := Some 11\<rparr>)]\<rparr>"

text \<open>
  The same collaborators, with Consumer 200 sending 361 kbit/s and the others nothing; and
  with an \<^verbatim>\<open>AddProducer\<close> that throws.
\<close>

definition stub361 :: Collaborators where
  "stub361 = stub\<lparr>GetTransmissionRate := (\<lambda>c now. if consumerId c = 200 then 361000 else 0)\<rparr>"

text \<open>
  Every Consumer sending 500999 bit/s; every Consumer sending 4194304000 bit/s, and a Peer
  with 1024 Consumers.
\<close>

definition stub500999 :: Collaborators where
  "stub500999 = stub\<lparr>GetTransmissionRate := (\<lambda>c now. 500999)\<rparr>"

definition stub_gbit :: Collaborators where
  "stub_gbit = stub\<lparr>GetTransmissionRate := (\<lambda>c now. 4194304000)\<rparr>"

definition crowd :: Peer where
  "crowd = alice\<lparr>consumers := map (\<lambda>i. (of_nat i, c201\<lparr>consumerId := of_nat i\<rparr>)) [0..<1024]\<rparr>"

definition stub_throwing :: Collaborators where
  "stub_throwing = stub\<lparr>AddProducer := (\<lambda>t p. (t, Some ''ssrc already exists''))\<rparr>"

section \<open>Properties\<close>

subsection \<open>Helper facts\<close>

lemmas scenario_defs = alice_def t10_def t11_def p100_def p101_def c200_def c201_def
  request_for_def

lemma map_of_map_replace:
  "map_of m k = Some old \<Longrightarrow> map_of (map_replace m k v) = (map_of m)(k \<mapsto> v)"
  by (induction m) (auto simp: fun_eq_iff)

lemma map_of_insert_at:
  "map_of m k = None \<Longrightarrow> map_of (take n m @ (k, v) # drop n m) = (map_of m)(k \<mapsto> v)"
proof (induction m arbitrary: n)
  case Nil
  show ?case by simp
next
  case (Cons kv m)
  show ?case
  proof (cases n)
    case 0
    then show ?thesis by (auto simp: fun_eq_iff)
  next
    case (Suc n')
    obtain k' v' where kv: "kv = (k', v')" by (cases kv)
    have "k' \<noteq> k" and "map_of m k = None"
      using Cons.prems by (auto simp: kv split: if_splits)
    then show ?thesis
      using Cons.IH [of n'] by (auto simp: Suc kv fun_eq_iff)
  qed
qed

lemma map_of_map_assign:
  "map_of (map_assign place m k v) = (map_of m)(k \<mapsto> v)"
proof (cases "map_of m k")
  case None
  then show ?thesis
    by (simp only: map_assign_def Let_def option.case map_of_insert_at)
next
  case (Some old)
  then show ?thesis
    by (simp only: map_assign_def option.case map_of_map_replace)
qed

lemma GetConsumer_encodings_iff:
  "GetConsumer_encodings es s \<longleftrightarrow> (\<exists>e \<in> set es. encoding_matches e s)"
  by (induction es) (auto simp: encoding_matches_def)

lemma GetConsumer_loop_find:
  "GetConsumer_loop m s = find (\<lambda>c. consumer_claims c s) (map snd m)"
proof (induction m)
  case Nil
  show ?case by simp
next
  case (Cons kv m)
  obtain k c where kv: "kv = (k, c)" by (cases kv)
  show ?case
    using Cons.IH
    by (cases "c_parameters c")
       (simp_all add: kv consumer_claims_def GetConsumer_encodings_iff)
qed

lemma GetConsumer_alice:
  "GetConsumer alice 0xDEADBEEF = Some c200"
  "GetConsumer alice 0xBEEF = Some c200"
  "GetConsumer alice 0x2010 = Some c201"
  "GetConsumer alice 0xCAFE = None"
  by (simp_all add: GetConsumer_def scenario_defs)

lemma OnTransportRtcpPacket_append:
  "OnTransportRtcpPacket peer transport (xs @ ys) =
     OnTransportRtcpPacket peer transport xs @ OnTransportRtcpPacket peer transport ys"
  by (induction xs) simp_all

lemma Destroy_loop_eq:
  "Destroy_loop destroy m = ([], map destroy (map fst m))"
  by (induction m) (auto split: prod.splits)

lemma lookup_alice:
  "GetProducerFromRequest alice (request_for m [(''producerId'', JInt 100), (''transportId'', JInt 11)] d)
     = Inr (100, Some p100)"
  "GetProducerFromRequest alice (request_for m [(''producerId'', JInt 101), (''transportId'', JInt 11)] d)
     = Inr (101, Some p101)"
  "GetProducerFromRequest alice (request_for m [(''producerId'', JInt 102), (''transportId'', JInt 10)] d)
     = Inr (102, None)"
  "GetTransportFromRequest alice (request_for m [(''producerId'', JInt 100), (''transportId'', JInt 11)] d)
     = Inr (11, Some t11)"
  "GetTransportFromRequest alice (request_for m [(''producerId'', JInt 101), (''transportId'', JInt 11)] d)
     = Inr (11, Some t11)"
  "GetTransportFromRequest alice (request_for m [(''producerId'', JInt 102), (''transportId'', JInt 10)] d)
     = Inr (10, Some t10)"
  by (simp_all add: GetProducerFromRequest_def GetTransportFromRequest_def Json_get_def
        request_for_def alice_def)

subsection \<open>The SSRC index\<close>

text \<open>
  C5. For every SSRC, \<^verbatim>\<open>GetConsumer(ssrc)\<close> returns the first Consumer, in the iteration
  order of the consumer map, that claims the SSRC: one of whose encodings has it as its
  primary SSRC, as its FEC SSRC when the encoding has FEC, or as its RTX SSRC when the
  encoding has RTX. It returns nothing exactly when no Consumer claims the SSRC.
\<close>

theorem GetConsumer_first_match:
  "GetConsumer peer s = find (\<lambda>c. consumer_claims c s) (map snd (consumers peer)) \<and>
   (GetConsumer peer s = None) =
     (\<not> (\<exists>c \<in> set (map snd (consumers peer)). consumer_claims c s))"
  by (simp add: GetConsumer_def GetConsumer_loop_find find_None_iff)

subsection \<open>The RTCP demultiplexer\<close>

text \<open>
  C4. A PSFB sub-packet of type PLI, SLI, RPSI or FIR, wherever it stands in the compound,
  contributes to the trace of \<^verbatim>\<open>OnTransportRtcpPacket\<close> exactly this: the Consumer is
  looked up by the media SSRC of the feedback; when there is none, one warning and no
  up-call; when it is not active, nothing at all; otherwise one \<^verbatim>\<open>OnPeerRtcpFeedback\<close> on
  the listener with that Consumer and the feedback.
\<close>

theorem PSFB_feedback_routing:
  assumes "ps_messageType feedback \<in> {PS_PLI, PS_SLI, PS_RPSI, PS_FIR}"
  shows "OnTransportRtcpPacket peer transport (before @ [PSFB feedback] @ rest) =
           OnTransportRtcpPacket peer transport before @
           (case GetConsumer peer (ps_mediaSsrc feedback) of
              None \<Rightarrow>
                [MS_WARN ''no Consumer found for received %s Feedback packet [sender ssrc:%u, media ssrc:%u]'']
            | Some consumer \<Rightarrow>
                if active consumer then [OnPeerRtcpFeedback consumer feedback] else []) @
           OnTransportRtcpPacket peer transport rest"
  using assms
  by (auto simp: OnTransportRtcpPacket_append OnRtcp_PSFB_def OnRtcp_PSFB_consumer_def
           split: option.splits)

text \<open>
  On alice: a PLI for the active Consumer 200 between two BYE packets, a FIR for the
  inactive Consumer 201, an SLI for an SSRC that no Consumer has.
\<close>

theorem PSFB_feedback_routing_witness:
  "OnTransportRtcpPacket alice t10
     [BYE,
      PSFB \<lparr>ps_messageType = PS_PLI, ps_mediaSsrc = 0xDEADBEEF, ps_application = AFB_UNKNOWN\<rparr>,
      BYE] =
     [OnPeerRtcpFeedback c200
        \<lparr>ps_messageType = PS_PLI, ps_mediaSsrc = 0xDEADBEEF, ps_application = AFB_UNKNOWN\<rparr>] \<and>
   OnTransportRtcpPacket alice t10
     [PSFB \<lparr>ps_messageType = PS_FIR, ps_mediaSsrc = 0x2010, ps_application = AFB_UNKNOWN\<rparr>] = [] \<and>
   OnTransportRtcpPacket alice t10
     [PSFB \<lparr>ps_messageType = PS_SLI, ps_mediaSsrc = 0xCAFE, ps_application = AFB_UNKNOWN\<rparr>] =
     [MS_WARN ''no Consumer found for received %s Feedback packet [sender ssrc:%u, media ssrc:%u]'']"
  using
    PSFB_feedback_routing
      [of "\<lparr>ps_messageType = PS_PLI, ps_mediaSsrc = 0xDEADBEEF, ps_application = AFB_UNKNOWN\<rparr>"
          alice t10 "[BYE]" "[BYE]"]
    PSFB_feedback_routing
      [of "\<lparr>ps_messageType = PS_FIR, ps_mediaSsrc = 0x2010, ps_application = AFB_UNKNOWN\<rparr>"
          alice t10 "[]" "[]"]
    PSFB_feedback_routing
      [of "\<lparr>ps_messageType = PS_SLI, ps_mediaSsrc = 0xCAFE, ps_application = AFB_UNKNOWN\<rparr>"
          alice t10 "[]" "[]"]
  by (simp add: GetConsumer_alice) (simp add: c200_def c201_def)

text \<open>
  C10. An RTPFB NACK sub-packet whose media SSRC resolves to a Consumer of the Peer is
  handed to that Consumer by \<^verbatim>\<open>ReceiveNack\<close>, whatever the Consumer's active flag is: the
  flag is not read on this path.
\<close>

theorem NACK_delivered_regardless_of_active:
  assumes "rtp_messageType feedback = RTP_NACK"
    and "GetConsumer peer (rtp_mediaSsrc feedback) = Some consumer"
  shows "OnTransportRtcpPacket peer transport (before @ [RTPFB feedback] @ rest) =
           OnTransportRtcpPacket peer transport before @
           [Consumer_ReceiveNack consumer feedback] @
           OnTransportRtcpPacket peer transport rest"
  using assms by (simp add: OnTransportRtcpPacket_append OnRtcp_RTPFB_def)

text \<open>Consumer 201 of alice is not active and receives the NACK.\<close>

theorem NACK_delivered_regardless_of_active_witness:
  "OnTransportRtcpPacket alice t11
     [RTPFB \<lparr>rtp_messageType = RTP_NACK, rtp_mediaSsrc = 0x2010\<rparr>] =
     [Consumer_ReceiveNack c201 \<lparr>rtp_messageType = RTP_NACK, rtp_mediaSsrc = 0x2010\<rparr>] \<and>
   active c201 = False"
  using
    NACK_delivered_regardless_of_active
      [of "\<lparr>rtp_messageType = RTP_NACK, rtp_mediaSsrc = 0x2010\<rparr>" alice c201 t11 "[]" "[]"]
  by (simp add: GetConsumer_alice) (simp add: c201_def)

subsection \<open>Destruction\<close>

text \<open>
  C9. \<^verbatim>\<open>Destroy\<close> destroys every Producer first, then every Consumer, then every
  Transport, each in the order of its map and each map left empty; after the last child
  it emits the notification \<^verbatim>\<open>close\<close> and then calls \<^verbatim>\<open>OnPeerClosed\<close> on the listener, once.
\<close>

theorem Destroy_order:
  "Destroy peer =
     map Producer_Destroy (map fst (producers peer)) @
     map Consumer_Destroy (map fst (consumers peer)) @
     map Transport_Destroy (map fst (transports peer)) @
     [Emit (peerId peer) ''close'' (JObject [(''class'', JString ''Peer'')]), OnPeerClosed] \<and>
   fst (Destroy_loop Producer_Destroy (producers peer)) = [] \<and>
   fst (Destroy_loop Consumer_Destroy (consumers peer)) = [] \<and>
   fst (Destroy_loop Transport_Destroy (transports peer)) = [] \<and>
   count_list (Destroy peer) OnPeerClosed = 1"
  by (auto simp: Destroy_def Destroy_loop_eq count_list_0_iff)

subsection \<open>The request dispatcher\<close>

text \<open>
  C8. \<^verbatim>\<open>PEER_SET_CAPABILITIES\<close> rejects whenever the Peer has its capabilities already.
  Otherwise, with capabilities that parse, it sets them, notifies the listener (which
  reduces them in place) and accepts after that, with the reduced capabilities; with data
  that does not parse it rejects with the parser's message and sets nothing. Once a
  first request has been accepted, every second one is rejected.
\<close>

theorem set_capabilities_once:
  assumes "methodId request = PEER_SET_CAPABILITIES"
  shows "(hasCapabilities peer \<longrightarrow>
            HandleRequest env peer request = returns [Reject ''peer capabilities already set''] peer) \<and>
         (\<forall>caps. \<not> hasCapabilities peer \<and> new_RtpCapabilities env (data request) = Inr caps \<longrightarrow>
            HandleRequest env peer request =
              returns [OnPeerCapabilities,
                       AcceptData (RtpCapabilities_ToJson env (reduceCapabilities env caps))]
                (peer\<lparr>capabilities := reduceCapabilities env caps, hasCapabilities := True\<rparr>)) \<and>
         (\<forall>error. \<not> hasCapabilities peer \<and> new_RtpCapabilities env (data request) = Inl error \<longrightarrow>
            HandleRequest env peer request = returns [Reject error] peer) \<and>
         (\<forall>request2 peer1. methodId request2 = PEER_SET_CAPABILITIES \<and>
            after (HandleRequest env peer request) = Some peer1 \<and>
            (\<exists>json. AcceptData json \<in> set (trace (HandleRequest env peer request))) \<longrightarrow>
            HandleRequest env peer1 request2 =
              returns [Reject ''peer capabilities already set''] peer1)"
  using assms
  by (auto simp: HandleRequest_PEER_SET_CAPABILITIES_def returns_def Let_def
           split: sum.splits if_splits)

text \<open>
  A Peer without capabilities accepts the first request and becomes alice, who rejects
  the second one.
\<close>

theorem set_capabilities_once_witness:
  "HandleRequest stub (alice\<lparr>hasCapabilities := False\<rparr>)
     (request_for PEER_SET_CAPABILITIES [] [(''codecs'', JArray [JString ''opus''])]) =
     returns [OnPeerCapabilities, AcceptData (JObject [(''codecs'', JArray [JString ''opus''])])] alice \<and>
   HandleRequest stub alice
     (request_for PEER_SET_CAPABILITIES [] [(''codecs'', JArray [JString ''vp8''])]) =
     returns [Reject ''peer capabilities already set''] alice"
proof -
  let ?r1 = "request_for PEER_SET_CAPABILITIES [] [(''codecs'', JArray [JString ''opus''])]"
  let ?r2 = "request_for PEER_SET_CAPABILITIES [] [(''codecs'', JArray [JString ''vp8''])]"
  let ?bob = "alice\<lparr>hasCapabilities := False\<rparr>"
  have m1: "methodId ?r1 = PEER_SET_CAPABILITIES" and m2: "methodId ?r2 = PEER_SET_CAPABILITIES"
    by (simp_all add: request_for_def)
  have parse: "new_RtpCapabilities stub (data ?r1) =
      Inr \<lparr>codecs = [JString ''opus''], headerExtensions = []\<rparr>"
    by (simp add: stub_def request_for_def Json_get_def)
  have bob: "?bob\<lparr>capabilities :=
                    reduceCapabilities stub \<lparr>codecs = [JString ''opus''], headerExtensions = []\<rparr>,
                  hasCapabilities := True\<rparr> = alice"
    by (simp add: stub_def alice_def)
  have first: "HandleRequest stub ?bob ?r1 =
      returns [OnPeerCapabilities, AcceptData (JObject [(''codecs'', JArray [JString ''opus''])])] alice"
    using set_capabilities_once [OF m1, of ?bob stub] parse bob
    by (simp add: stub_def)
  have "after (HandleRequest stub ?bob ?r1) = Some alice"
    and "AcceptData (JObject [(''codecs'', JArray [JString ''opus''])])
           \<in> set (trace (HandleRequest stub ?bob ?r1))"
    unfolding first by (simp_all add: returns_def)
  then have second: "HandleRequest stub alice ?r2 =
      returns [Reject ''peer capabilities already set''] alice"
    using set_capabilities_once [OF m1, of ?bob stub] m2 by blast
  show ?thesis using first second by simp
qed

text \<open>
  C6. In \<^verbatim>\<open>PRODUCER_SET_TRANSPORT\<close>, once the Producer and the Transport are resolved, the
  call of \<^verbatim>\<open>AddProducer\<close> on the new Transport is the first thing done, before the
  Producer's Transport is set. When \<^verbatim>\<open>AddProducer\<close> throws, the request is rejected with
  its message, \<^verbatim>\<open>HandleRequest\<close> returns, and the Peer's Producers are what they were: the
  Producer's current Transport is the one of before. The Producer's Transport is set only
  when \<^verbatim>\<open>AddProducer\<close> has not thrown.
\<close>

theorem set_transport_AddProducer_first:
  assumes "methodId request = PRODUCER_SET_TRANSPORT"
    and "GetProducerFromRequest peer request = Inr (pid, Some producer)"
    and "GetTransportFromRequest peer request = Inr (tid, Some transport)"
  shows "(\<exists>evs. trace (HandleRequest env peer request) = Transport_AddProducer tid pid # evs) \<and>
         (\<forall>error. snd (AddProducer env transport producer) = Some error \<longrightarrow>
            trace (HandleRequest env peer request) = [Transport_AddProducer tid pid, Reject error] \<and>
            completion (HandleRequest env peer request) = Returned \<and>
            (\<exists>peer1. after (HandleRequest env peer request) = Some peer1 \<and>
               producers peer1 = producers peer \<and>
               map_of (producers peer1) pid = Some producer)) \<and>
         (Producer_SetTransport pid tid \<in> set (trace (HandleRequest env peer request)) \<longrightarrow>
            snd (AddProducer env transport producer) = None)"
proof -
  have found: "map_of (producers peer) pid = Some producer"
    using assms(2) by (auto simp: GetProducerFromRequest_def Let_def split: if_splits)
  show ?thesis
    using assms found
    by (cases "AddProducer env transport producer")
       (auto simp: HandleRequest_PRODUCER_SET_TRANSPORT_def returns_def Let_def
             split: option.splits)
qed

text \<open>
  Producer 100 of alice is on Transport 10; \<^verbatim>\<open>AddProducer\<close> on Transport 11 throws.
\<close>

theorem set_transport_AddProducer_first_witness:
  "trace (HandleRequest stub_throwing alice
            (request_for PRODUCER_SET_TRANSPORT
               [(''producerId'', JInt 100), (''transportId'', JInt 11)] [])) =
     [Transport_AddProducer 11 100, Reject ''ssrc already exists''] \<and>
   (\<exists>peer1. after (HandleRequest stub_throwing alice
                     (request_for PRODUCER_SET_TRANSPORT
                        [(''producerId'', JInt 100), (''transportId'', JInt 11)] [])) = Some peer1 \<and>
            map_of (producers peer1) 100 = Some p100) \<and>
   p_transport p100 = Some 10"
proof -
  let ?env = "stub_throwing"
  let ?r = "request_for PRODUCER_SET_TRANSPORT
              [(''producerId'', JInt 100), (''transportId'', JInt 11)] []"
  have m: "methodId ?r = PRODUCER_SET_TRANSPORT"
    by (simp add: request_for_def)
  have thrown: "snd (AddProducer ?env t11 p100) = Some ''ssrc already exists''"
    by (simp add: stub_throwing_def)
  have prev: "p_transport p100 = Some 10"
    by (simp add: p100_def)
  show ?thesis
    using set_transport_AddProducer_first [OF m lookup_alice(1) lookup_alice(4), of ?env]
      thrown prev
    by blast
qed

text \<open>
  C7. In a \<^verbatim>\<open>PRODUCER_SET_TRANSPORT\<close> request whose \<^verbatim>\<open>AddProducer\<close> succeeds: when the
  Producer had a Transport and that Transport has REMB (asked after \<^verbatim>\<open>AddProducer\<close> has
  run), \<^verbatim>\<open>EnableRemb\<close> is called on the new Transport before the Producer's Transport is
  set to it, and then the request is accepted; when the Producer had no Transport, or its
  Transport has no REMB, \<^verbatim>\<open>EnableRemb\<close> is not called.
\<close>

theorem remb_carry_over:
  assumes "methodId request = PRODUCER_SET_TRANSPORT"
    and "GetProducerFromRequest peer request = Inr (pid, Some producer)"
    and "GetTransportFromRequest peer request = Inr (tid, Some transport)"
    and "AddProducer env transport producer = (transport1, None)"
  shows "(\<forall>previous previousTransport.
            p_transport producer = Some previous \<and>
            ((map_of (transports peer))(tid \<mapsto> transport1)) previous = Some previousTransport \<and>
            remb previousTransport \<longrightarrow>
            trace (HandleRequest env peer request) =
              [Transport_AddProducer tid pid, Transport_EnableRemb tid,
               Producer_SetTransport pid tid, Accept] \<and>
            (\<exists>peer1. after (HandleRequest env peer request) = Some peer1 \<and>
               map_of (transports peer1) tid = Some (transport1\<lparr>remb := True\<rparr>) \<and>
               map_of (producers peer1) pid = Some (producer\<lparr>p_transport := Some tid\<rparr>))) \<and>
         ((p_transport producer = None \<or>
           (\<exists>previous previousTransport.
              p_transport producer = Some previous \<and>
              ((map_of (transports peer))(tid \<mapsto> transport1)) previous = Some previousTransport \<and>
              \<not> remb previousTransport)) \<longrightarrow>
            trace (HandleRequest env peer request) =
              [Transport_AddProducer tid pid, Producer_SetTransport pid tid, Accept] \<and>
            (\<exists>peer1. after (HandleRequest env peer request) = Some peer1 \<and>
               map_of (transports peer1) tid = Some transport1 \<and>
               map_of (producers peer1) pid = Some (producer\<lparr>p_transport := Some tid\<rparr>)))"
proof -
  have p: "map_of (producers peer) pid = Some producer"
    using assms(2) by (auto simp: GetProducerFromRequest_def Let_def split: if_splits)
  have t: "map_of (transports peer) tid = Some transport"
    using assms(3) by (auto simp: GetTransportFromRequest_def Let_def split: if_splits)
  have t1: "map_of (map_replace (transports peer) tid transport1) =
      (map_of (transports peer))(tid \<mapsto> transport1)"
    using t by (rule map_of_map_replace)
  have t2: "map_of (map_replace (map_replace (transports peer) tid transport1) tid v) =
      (map_of (transports peer))(tid \<mapsto> v)" for v
    by (simp add: map_of_map_replace [where old = transport1] t1)
  have p1: "map_of (map_replace (producers peer) pid v) = (map_of (producers peer))(pid \<mapsto> v)"
    for v
    using p by (rule map_of_map_replace)
  show ?thesis
    using assms
    by (auto simp: HandleRequest_PRODUCER_SET_TRANSPORT_def returns_def Let_def
                   t1 t2 p1 Producer_SetTransport_on_def Transport_EnableRemb_on_def
             split: option.splits)
qed

text \<open>
  Producer 100 moves from Transport 10, which has REMB, to Transport 11; Producer 101 had
  no Transport.
\<close>

theorem remb_carry_over_witness:
  "trace (HandleRequest stub alice
            (request_for PRODUCER_SET_TRANSPORT
               [(''producerId'', JInt 100), (''transportId'', JInt 11)] [])) =
     [Transport_AddProducer 11 100, Transport_EnableRemb 11, Producer_SetTransport 100 11, Accept] \<and>
   trace (HandleRequest stub alice
            (request_for PRODUCER_SET_TRANSPORT
               [(''producerId'', JInt 101), (''transportId'', JInt 11)] [])) =
     [Transport_AddProducer 11 101, Producer_SetTransport 101 11, Accept]"
proof -
  have add: "AddProducer stub t11 p = (t11, None)" for p
    by (simp add: stub_def)
  have prev: "p_transport p100 = Some 10" "p_transport p101 = None"
    "((map_of (transports alice))(11 \<mapsto> t11)) 10 = Some t10" "remb t10"
    by (simp_all add: scenario_defs)
  have m: "methodId (request_for PRODUCER_SET_TRANSPORT i d) = PRODUCER_SET_TRANSPORT" for i d
    by (simp add: request_for_def)
  show ?thesis
    using remb_carry_over [OF m lookup_alice(1) lookup_alice(4) add, of "[]"]
      remb_carry_over [OF m lookup_alice(2) lookup_alice(5) add, of "[]"] prev
    by blast
qed

text \<open>
  C1. A \<^verbatim>\<open>PEER_CREATE_PRODUCER\<close> request whose data has no string \<^verbatim>\<open>kind\<close>, on a Peer
  with capabilities, with a fresh producer id and an existing Transport: the code answers
  neither \<^verbatim>\<open>Accept\<close> nor \<^verbatim>\<open>Reject\<close> and throws the error \<^verbatim>\<open>missing kind\<close> to the caller of
  \<^verbatim>\<open>HandleRequest\<close>.
\<close>

theorem create_producer_missing_kind_throws:
  assumes "methodId request = PEER_CREATE_PRODUCER"
    and "hasCapabilities peer"
    and "GetProducerFromRequest peer request = Inr (pid, None)"
    and "GetTransportFromRequest peer request = Inr (tid, Some transport)"
    and "\<not> isString (Json_get (data request) ''kind'')"
  shows "HandleRequest env peer request = throws [] peer ''missing kind'' \<and>
         completion (HandleRequest env peer request) = Threw ''missing kind'' \<and>
         trace (HandleRequest env peer request) = []"
  using assms by (simp add: HandleRequest_PEER_CREATE_PRODUCER_def throws_def)

text \<open>
  On alice: the request without \<^verbatim>\<open>kind\<close> throws; the same request with the kind
  \<^verbatim>\<open>video\<close> is accepted.
\<close>

theorem create_producer_missing_kind_throws_witness:
  "HandleRequest stub alice
     (request_for PEER_CREATE_PRODUCER
        [(''producerId'', JInt 102), (''transportId'', JInt 10)] []) =
     throws [] alice ''missing kind'' \<and>
   HandleRequest stub alice
     (request_for PEER_CREATE_PRODUCER
        [(''producerId'', JInt 102), (''transportId'', JInt 10)] [(''kind'', JString ''video'')]) =
     returns [Producer_SetTransport 102 10, Accept]
       (alice\<lparr>producers :=
          [(102, \<lparr>producerId = 102, p_kind = VIDEO, p_transport = Some 10\<rparr>),
           (100, p100), (101, p101)]\<rparr>)"
proof -
  have 1: "HandleRequest stub alice
     (request_for PEER_CREATE_PRODUCER
        [(''producerId'', JInt 102), (''transportId'', JInt 10)] []) =
     throws [] alice ''missing kind''"
    using create_producer_missing_kind_throws
      [of "request_for PEER_CREATE_PRODUCER [(''producerId'', JInt 102), (''transportId'', JInt 10)] []"
          alice 102 10 t10 stub]
    by (simp add: lookup_alice) (simp add: request_for_def alice_def Json_get_def)
  have 2: "HandleRequest stub alice
     (request_for PEER_CREATE_PRODUCER
        [(''producerId'', JInt 102), (''transportId'', JInt 10)] [(''kind'', JString ''video'')]) =
     returns [Producer_SetTransport 102 10, Accept]
       (alice\<lparr>producers :=
          [(102, \<lparr>producerId = 102, p_kind = VIDEO, p_transport = Some 10\<rparr>),
           (100, p100), (101, p101)]\<rparr>)"
    by (simp add: HandleRequest_PEER_CREATE_PRODUCER_def GetProducerFromRequest_def
          GetTransportFromRequest_def request_for_def alice_def Json_get_def stub_def
          Producer_SetTransport_on_def map_assign_def)
  show ?thesis using 1 2 by simp
qed

subsection \<open>Sending RTCP\<close>

text \<open>
  C3. On carol, with a send buffer of 40 bytes: the sender report of Consumer 200 (52
  bytes) on Transport 10 does not fit, and \<^verbatim>\<open>SendRtcp\<close> ends there, with the warning: the
  receiver report of Producer 100 (32 bytes) on Transport 11 is never sent. With the two
  Transports in the other order it is sent, before the warning.
\<close>

theorem SendRtcp_oversize_ends_tick:
  "SendRtcp (stub\<lparr>BufferSize := 40\<rparr>) carol 0 =
     [MS_WARN ''cannot send RTCP packet, size too big (%zu bytes)''] \<and>
   SendRtcp (stub\<lparr>BufferSize := 40\<rparr>) (carol\<lparr>transports := [(11, t11), (10, t10)]\<rparr>) 0 =
     [SendRtcpCompoundPacket 11
        \<lparr>senderReportCount = 0, receiverReportCount = 1, packetSize = 32\<rparr>,
      MS_WARN ''cannot send RTCP packet, size too big (%zu bytes)'']"
  by (simp add: SendRtcp_def carol_def scenario_defs stub_def CompoundPacket_new_def)

subsection \<open>The interval timer\<close>

text \<open>Rounding to the nearest integer does not cross an integer and errs by a half at most.\<close>

lemma round_half_even_le: "q \<le> of_int k \<Longrightarrow> round_half_even q \<le> k"
proof -
  assume a: "q \<le> of_int k"
  then have fl: "\<lfloor>q\<rfloor> \<le> k" by (simp add: floor_le_iff) 
  show ?thesis
  proof (cases "\<lfloor>q\<rfloor> = k")
    case True
    then have "q = of_int k" using a by linarith
    then show ?thesis by (simp add: round_half_even_def)
  next
    case False
    then have "\<lfloor>q\<rfloor> + 1 \<le> k" using fl by linarith
    then show ?thesis by (auto simp: round_half_even_def Let_def)
  qed
qed

lemma round_half_even_ge: "of_int k \<le> q \<Longrightarrow> k \<le> round_half_even q"
proof -
  assume a: "of_int k \<le> q"
  then have "k \<le> \<lfloor>q\<rfloor>" by (simp add: le_floor_iff)
  then show ?thesis by (auto simp: round_half_even_def Let_def)
qed

lemma round_half_even_error: "\<bar>of_int (round_half_even q) - q\<bar> \<le> 1 / 2"
proof -
  have "of_int \<lfloor>q\<rfloor> \<le> q" "q < of_int \<lfloor>q\<rfloor> + 1" by linarith+
  then show ?thesis
    unfolding round_half_even_def Let_def
    by (simp split: if_splits)
qed

lemma powi_nat: "0 < k \<Longrightarrow> (2::rat) powi (int k - 1) = 2 ^ (k - 1)"
  by (simp add: power_int_def nat_diff_distrib')

lemma float_exponent_lower:
  assumes "0 < x"
  shows "2 powi (float_exponent x) \<le> x"
proof (cases "1 \<le> x")
  case True
  define n where "n = nat \<lfloor>x\<rfloor>"
  have n: "0 < n" "of_nat n \<le> x" using True by (simp_all add: n_def le_nat_floor)
  have b: "(2::nat) ^ (floorlog 2 n - 1) \<le> n" using floorlog_bounds [of n 2] n by simp
  have pos: "0 < floorlog 2 n" using floorlog_eq_zero_iff [of 2 n] n by auto
  have "(2::rat) ^ (floorlog 2 n - 1) \<le> of_nat n"
    using b by (metis of_nat_le_iff of_nat_numeral of_nat_power)
  then have "(2::rat) powi (int (floorlog 2 n) - 1) \<le> of_nat n"
    using pos by (simp add: powi_nat)
  then have "(2::rat) powi (int (floorlog 2 n) - 1) \<le> x"
    using n(2) by (rule order_trans)
  then show ?thesis using True by (simp add: float_exponent_def n_def)
next
  case False
  define m where "m = nat \<lceil>1 / x\<rceil>"
  define k where "k = floorlog 2 (m - 1)"
  have x: "0 < x" "x < 1" using assms False by simp_all
  then have inv: "1 < 1 / x" by simp
  then have m2: "2 \<le> m" unfolding m_def by linarith
  have up: "1 / x \<le> of_nat m" unfolding m_def
    by (metis ceiling_mono le_of_int_ceiling of_nat_nat inv less_imp_le order_trans zero_le_one ceiling_one)
  have "m - 1 < 2 ^ k" using floorlog_bounds [of "m - 1" 2] m2 by (simp add: k_def)
  then have "m \<le> 2 ^ k" by simp
  then have "(of_nat m :: rat) \<le> 2 ^ k"
    by (metis of_nat_le_iff of_nat_numeral of_nat_power)
  with up have "1 / x \<le> 2 ^ k" by (rule order_trans)
  then have "1 / 2 ^ k \<le> x" using x
    by (simp add: field_simps)
  moreover have "(2::rat) powi (- int k) = 1 / 2 ^ k"
    by (simp add: power_int_def field_simps)
  ultimately show ?thesis using False by (simp add: float_exponent_def k_def m_def)
qed



lemma float_exponent_upper:
  assumes "0 < x"
  shows "x < 2 powi (float_exponent x + 1)"
proof (cases "1 \<le> x")
  case True
  define n where "n = nat \<lfloor>x\<rfloor>"
  have n: "0 < n" using True by (simp add: n_def)
  have "x < of_int \<lfloor>x\<rfloor> + 1" by linarith
  moreover have "of_int \<lfloor>x\<rfloor> = (of_nat n :: rat)" using True by (simp add: n_def)
  ultimately have xn: "x < of_nat (n + 1)" by simp
  have "n < 2 ^ floorlog 2 n" using floorlog_bounds [of n 2] n by simp
  then have "n + 1 \<le> 2 ^ floorlog 2 n" by simp
  then have "(of_nat (n + 1) :: rat) \<le> of_nat (2 ^ floorlog 2 n)"
    by (simp only: of_nat_le_iff)
  then have "(of_nat (n + 1) :: rat) \<le> 2 ^ floorlog 2 n" by simp
  with xn have "x < 2 ^ floorlog 2 n" by (rule less_le_trans)
  moreover have "(2::rat) powi (int (floorlog 2 n) - 1 + 1) = 2 ^ floorlog 2 n" by simp
  ultimately show ?thesis using True by (simp add: float_exponent_def n_def)
next
  case False
  define m where "m = nat \<lceil>1 / x\<rceil>"
  define k where "k = floorlog 2 (m - 1)"
  have x: "0 < x" "x < 1" using assms False by simp_all
  then have inv: "1 < 1 / x" by simp
  then have m2: "2 \<le> m" unfolding m_def by linarith
  have kpos: "0 < k" using floorlog_eq_zero_iff [of 2 "m - 1"] m2 by (auto simp: k_def)
  have "of_int \<lceil>1 / x\<rceil> - 1 < 1 / x" by linarith
  moreover have "of_int \<lceil>1 / x\<rceil> = (of_nat m :: rat)" using inv by (simp add: m_def)
  ultimately have low: "(of_nat m :: rat) - 1 < 1 / x" by simp
  have "2 ^ (k - 1) \<le> m - 1" using floorlog_bounds [of "m - 1" 2] m2 by (simp add: k_def)
  then have "(of_nat (2 ^ (k - 1)) :: rat) \<le> of_nat (m - 1)" by (simp only: of_nat_le_iff)
  then have "(2::rat) ^ (k - 1) \<le> of_nat m - 1" using m2 by (simp add: of_nat_diff)
  with low have "(2::rat) ^ (k - 1) < 1 / x" by simp
  then have "x < 1 / 2 ^ (k - 1)" using x by (simp add: field_simps)
  moreover have "(2::rat) powi (- int k + 1) = 1 / 2 ^ (k - 1)"
  proof -
    have "- int k + 1 = - int (k - 1)" using kpos by simp
    then show ?thesis by (simp only: power_int_minus_divide power_int_of_nat)
  qed
  ultimately show ?thesis using False by (simp add: float_exponent_def k_def m_def)
qed

lemma float_exponent_small:
  assumes "0 < x" "x < 2 ^ 23"
  shows "float_exponent x \<le> 22"
proof (rule ccontr)
  assume "\<not> float_exponent x \<le> 22"
  then have "23 \<le> float_exponent x" by simp
  then have "(2::rat) powi 23 \<le> 2 powi float_exponent x"
    by (intro power_int_increasing) simp_all
  then have "(2::rat) ^ 23 \<le> x"
    using float_exponent_lower [OF assms(1)] by simp
  then show False using assms(2) by simp
qed

lemma ulp_inverse:
  assumes "e \<le> (22::int)"
  shows "(2::rat) powi (e - 23) * 2 ^ (nat (22 - e) + 1) = 1"
proof -
  have "nat (23 - e) = nat (22 - e) + 1" using assms by simp
  then have "(2::rat) ^ (nat (22 - e) + 1) = 2 powi (23 - e)"
    using assms by (simp add: power_int_def)
  moreover have "(2::rat) powi (e - 23) * 2 powi (23 - e) = 2 powi 0"
    by (simp flip: power_int_add)
  ultimately show ?thesis by simp
qed

text \<open>The shape of a rounding below 2 ^ 23: a multiple of 1 / 2 ^ (n + 1).\<close>

lemma float_round_shape:
  assumes "0 < x" "x < 2 ^ 23"
  obtains n where "float_round x = of_int (round_half_even (x * 2 ^ (n + 1))) / 2 ^ (n + 1)"
proof -
  define e where "e = float_exponent x"
  define n where "n = nat (22 - e)"
  have e: "e \<le> 22" unfolding e_def by (rule float_exponent_small [OF assms])
  have u: "(2::rat) powi (e - 23) = 1 / 2 ^ (n + 1)"
    using ulp_inverse [OF e] by (simp add: n_def field_simps)
  have "float_round x = of_int (round_half_even (x * 2 ^ (n + 1))) / 2 ^ (n + 1)"
    using assms(1) by (simp add: float_round_def Let_def u flip: e_def)
  then show ?thesis by (rule that)
qed

lemma float_round_le_half:
  assumes "0 < x" "x < 2 ^ 23" "x \<le> of_int k / 2"
  shows "float_round x \<le> of_int k / 2"
proof -
  obtain n where fr: "float_round x = of_int (round_half_even (x * 2 ^ (n + 1))) / 2 ^ (n + 1)"
    using float_round_shape [OF assms(1,2)] by blast
  have "x * 2 ^ (n + 1) \<le> (of_int k / 2) * 2 ^ (n + 1)"
    using assms(3) by (simp add: mult_right_mono)
  also have "(of_int k / 2) * 2 ^ (n + 1) = (of_int (k * 2 ^ n) :: rat)" by simp
  finally have "round_half_even (x * 2 ^ (n + 1)) \<le> k * 2 ^ n"
    by (rule round_half_even_le)
  then have "(of_int (round_half_even (x * 2 ^ (n + 1))) :: rat) \<le> of_int (k * 2 ^ n)"
    by (simp only: of_int_le_iff)
  then have "(of_int (round_half_even (x * 2 ^ (n + 1))) :: rat) / 2 ^ (n + 1)
               \<le> of_int (k * 2 ^ n) / 2 ^ (n + 1)"
    by (rule divide_right_mono) simp
  moreover have "(of_int (k * 2 ^ n) :: rat) / 2 ^ (n + 1) = of_int k / 2" by simp
  ultimately show ?thesis unfolding fr by simp
qed

lemma float_round_ge_half:
  assumes "0 < x" "x < 2 ^ 23" "of_int k / 2 \<le> x"
  shows "of_int k / 2 \<le> float_round x"
proof -
  obtain n where fr: "float_round x = of_int (round_half_even (x * 2 ^ (n + 1))) / 2 ^ (n + 1)"
    using float_round_shape [OF assms(1,2)] by blast
  have "(of_int k / 2) * 2 ^ (n + 1) \<le> x * 2 ^ (n + 1)"
    using assms(3) by (simp add: mult_right_mono)
  moreover have "(of_int k / 2) * 2 ^ (n + 1) = (of_int (k * 2 ^ n) :: rat)" by simp
  ultimately have "(of_int (k * 2 ^ n) :: rat) \<le> x * 2 ^ (n + 1)" by simp
  then have "k * 2 ^ n \<le> round_half_even (x * 2 ^ (n + 1))"
    by (rule round_half_even_ge)
  then have "(of_int (k * 2 ^ n) :: rat) \<le> of_int (round_half_even (x * 2 ^ (n + 1)))"
    by (simp only: of_int_le_iff)
  then have "(of_int (k * 2 ^ n) :: rat) / 2 ^ (n + 1)
               \<le> of_int (round_half_even (x * 2 ^ (n + 1))) / 2 ^ (n + 1)"
    by (rule divide_right_mono) simp
  moreover have "(of_int (k * 2 ^ n) :: rat) / 2 ^ (n + 1) = of_int k / 2" by simp
  ultimately show ?thesis unfolding fr by simp
qed

lemma float_round_exact_half:
  assumes "0 < k" "of_int k / 2 < (2::rat) ^ 23"
  shows "float_round (of_int k / 2) = of_int k / 2"
proof -
  have pos: "(0::rat) < of_int k / 2" using assms(1) by simp
  show ?thesis
    using float_round_le_half [OF pos assms(2), of k] float_round_ge_half [OF pos assms(2), of k]
    by simp
qed

lemma float_round_nat:
  assumes "n < 2 ^ 23"
  shows "float_round (of_nat n) = of_nat n"
proof (cases "n = 0")
  case True
  then show ?thesis by (simp add: float_round_def)
next
  case False
  have lt: "(of_nat n :: rat) < 2 ^ 23"
    using assms by (metis of_nat_less_iff of_nat_numeral of_nat_power)
  have "float_round (of_int (2 * int n) / 2) = of_int (2 * int n) / 2"
    using False lt by (intro float_round_exact_half) simp_all
  then show ?thesis by simp
qed


lemma float_round_rel_error:
  assumes "0 < x"
  shows "\<bar>float_round x - x\<bar> \<le> x / 2 ^ 24"
proof -
  define u :: rat where "u = 2 powi (float_exponent x - 23)"
  have upos: "0 < u" by (simp add: u_def zero_less_power_int)
  have "u = 2 powi float_exponent x / 2 powi 23"
    unfolding u_def by (rule power_int_diff) simp
  also have "\<dots> = 2 powi float_exponent x / 2 ^ 23"
    by simp
  also have "\<dots> \<le> x / 2 ^ 23"
    using float_exponent_lower [OF assms] by (simp add: divide_right_mono)
  finally have ule: "u \<le> x / 2 ^ 23" .
  have "float_round x - x = u * (of_int (round_half_even (x / u)) - x / u)"
    using assms upos by (simp add: float_round_def Let_def field_simps flip: u_def)
  then have "\<bar>float_round x - x\<bar> = u * \<bar>of_int (round_half_even (x / u)) - x / u\<bar>"
    using upos by (simp add: abs_mult)
  also have "\<dots> \<le> u * (1 / 2)"
    using upos round_half_even_error [of "x / u"] by (intro mult_left_mono) simp_all
  also have "\<dots> \<le> (x / 2 ^ 23) * (1 / 2)"
    using ule by (intro mult_right_mono) simp_all
  finally show ?thesis by simp
qed

lemma jitter_factor:
  fixes n :: nat
  assumes "5 \<le> n" "n \<le> 15"
  defines "f \<equiv> float_round (float_round (of_nat n) / float_round 10)"
  shows "1 / 2 \<le> f" "f \<le> 3 / 2" "\<bar>f - of_nat n / 10\<bar> \<le> (3 / 2) / 2 ^ 24"
proof -
  have fr: "float_round (of_nat n) = of_nat n"
    using assms(2) by (intro float_round_nat) simp
  have "float_round (of_nat 10) = of_nat 10"
    by (intro float_round_nat) simp
  then have f10: "float_round 10 = 10" by simp
  define q :: rat where "q = of_nat n / 10"
  have q: "1 / 2 \<le> q" "q \<le> 3 / 2" using assms(1,2) by (simp_all add: q_def)
  then have q0: "0 < q" "q < 2 ^ 23" by simp_all
  have f: "f = float_round q" by (simp add: f_def fr f10 q_def)
  show "1 / 2 \<le> f"
    using float_round_ge_half [OF q0, of 1] q(1) by (simp add: f)
  show "f \<le> 3 / 2"
    using float_round_le_half [OF q0, of 3] q(2) by (simp add: f)
  have "\<bar>f - q\<bar> \<le> q / 2 ^ 24"
    unfolding f by (rule float_round_rel_error [OF q0(1)])
  also have "\<dots> \<le> (3 / 2) / 2 ^ 24"
    using q(2) by (intro divide_right_mono) simp_all
  finally show "\<bar>f - of_nat n / 10\<bar> \<le> (3 / 2) / 2 ^ 24"
    by (simp add: q_def)
qed


lemma jitter_product:
  fixes b n :: nat
  assumes "b < 2 ^ 22" "5 \<le> n" "n \<le> 15"
  defines "y \<equiv> float_round (float_round (of_nat b) *
                     float_round (float_round (of_nat n) / float_round 10))"
  shows "of_nat b / 2 \<le> y" "y \<le> 3 * of_nat b / 2"
    "\<bar>y - of_nat (b * n) / 10\<bar> \<le> 3 * of_nat b / 2 ^ 24"
proof -
  define f where "f = float_round (float_round (of_nat n) / float_round 10)"
  have f: "1 / 2 \<le> f" "f \<le> 3 / 2" "\<bar>f - of_nat n / 10\<bar> \<le> (3 / 2) / 2 ^ 24"
    using jitter_factor [OF assms(2,3)] by (simp_all add: f_def)
  have fb: "float_round (of_nat b) = of_nat b"
    using assms(1) by (intro float_round_nat) simp
  define x :: rat where "x = of_nat b * f"
  have y: "y = float_round x" by (simp add: y_def fb x_def f_def)
  have B: "(0::rat) \<le> of_nat b" by simp
  have lo: "of_nat b * (1 / 2) \<le> x"
    unfolding x_def using f(1) B by (rule mult_left_mono)
  have hi: "x \<le> of_nat b * (3 / 2)"
    unfolding x_def using f(2) B by (rule mult_left_mono)
  have "x - of_nat (b * n) / 10 = of_nat b * (f - of_nat n / 10)"
    by (simp add: x_def right_diff_distrib)
  then have "\<bar>x - of_nat (b * n) / 10\<bar> = of_nat b * \<bar>f - of_nat n / 10\<bar>"
    by (simp only: abs_mult abs_of_nat)
  also have "\<dots> \<le> of_nat b * ((3 / 2) / 2 ^ 24)"
    using f(3) B by (rule mult_left_mono)
  finally have ex: "\<bar>x - of_nat (b * n) / 10\<bar> \<le> of_nat b * ((3 / 2) / 2 ^ 24)" .
  have main: "of_nat b / 2 \<le> y \<and> y \<le> 3 * of_nat b / 2 \<and>
    \<bar>y - of_nat (b * n) / 10\<bar> \<le> 3 * of_nat b / 2 ^ 24"
  proof (cases "b = 0")
    case True
    then have "y = 0" by (simp add: y x_def float_round_def)
    then show ?thesis using True by simp
  next
    case False
    then have bpos: "(0::rat) < of_nat b" by simp
    have xpos: "0 < x" using lo bpos by simp
    have "(of_nat b :: rat) < 2 ^ 22"
      using assms(1) by (metis of_nat_less_iff of_nat_numeral of_nat_power)
    then have x23: "x < 2 ^ 23" using hi by simp
    have lo': "of_int (int b) / 2 \<le> x" using lo by simp
    have hi': "x \<le> of_int (3 * int b) / 2" using hi by simp
    have 1: "of_nat b / 2 \<le> y"
      using float_round_ge_half [OF xpos x23 lo'] by (simp add: y)
    have 2: "y \<le> 3 * of_nat b / 2"
      using float_round_le_half [OF xpos x23 hi'] by (simp add: y)
    have "\<bar>y - x\<bar> \<le> x / 2 ^ 24"
      unfolding y by (rule float_round_rel_error [OF xpos])
    also have "\<dots> \<le> (of_nat b * (3 / 2)) / 2 ^ 24"
      using hi by (intro divide_right_mono) simp_all
    finally have yx: "\<bar>y - x\<bar> \<le> (of_nat b * (3 / 2)) / 2 ^ 24" .
    define E :: rat where "E = of_nat b * ((3 / 2) / 2 ^ 24)"
    define c :: rat where "c = of_nat (b * n) / 10"
    have "\<bar>y - x\<bar> \<le> E" using yx by (simp add: E_def)
    moreover have "\<bar>x - c\<bar> \<le> E" using ex by (simp only: E_def c_def)
    ultimately have "\<bar>y - c\<bar> \<le> 2 * E" by linarith
    moreover have "2 * E = 3 * of_nat b / 2 ^ 24" by (simp add: E_def)
    ultimately have 3: "\<bar>y - of_nat (b * n) / 10\<bar> \<le> 3 * of_nat b / 2 ^ 24"
      by (simp only: c_def)
    show ?thesis using 1 2 3 by simp
  qed
  show "of_nat b / 2 \<le> y" "y \<le> 3 * of_nat b / 2"
    "\<bar>y - of_nat (b * n) / 10\<bar> \<le> 3 * of_nat b / 2 ^ 24"
    using main by simp_all
qed


lemma OnTimer_jitter_law:
  assumes "b < 2 ^ 19" "5 \<le> r" "r \<le> (15 :: u32)"
  shows "(of_nat b / 2 \<le> OnTimer_product b r \<and> OnTimer_product b r \<le> 3 * of_nat b / 2) \<and>
         b div 2 \<le> OnTimer_jitter b r \<and> OnTimer_jitter b r \<le> 3 * b div 2 \<and>
         (OnTimer_jitter b r = b * unat r div 10 \<or> OnTimer_jitter b r + 1 = b * unat r div 10)"
proof -
  define n where "n = unat r"
  have n: "5 \<le> n" "n \<le> 15"
    using assms(2,3) by (simp_all add: n_def word_le_nat_alt)
  define y where "y = float_round (float_round (of_nat b) *
                     float_round (float_round (of_nat n) / float_round 10))"
  have p: "OnTimer_product b r = y"
    by (simp only: OnTimer_product_def y_def n_def)
  have j: "OnTimer_jitter b r = nat \<lfloor>y\<rfloor>"
    by (simp only: OnTimer_jitter_def p)
  have b22: "b < 2 ^ 22" using assms(1) by simp
  have y: "of_nat b / 2 \<le> y" "y \<le> 3 * of_nat b / 2"
    "\<bar>y - of_nat (b * n) / 10\<bar> \<le> 3 * of_nat b / 2 ^ 24"
    using jitter_product [OF b22 n] by (simp_all only: y_def)
  have y0: "0 \<le> y" using y(1) by (rule order_trans [rotated]) simp
  have "2 * (b div 2) \<le> b" by simp
  then have "2 * (of_nat (b div 2) :: rat) \<le> of_nat b"
    by (metis of_nat_le_iff of_nat_mult of_nat_numeral)
  then have "of_int (int (b div 2)) \<le> y" using y(1) by simp
  then have "int (b div 2) \<le> \<lfloor>y\<rfloor>" by (simp only: le_floor_iff)
  then have lower: "b div 2 \<le> OnTimer_jitter b r" unfolding j by simp
  have "3 * b < 2 * (3 * b div 2) + 2" by presburger
  then have "3 * (of_nat b :: rat) < 2 * of_nat (3 * b div 2) + 2"
    by (metis (mono_tags, lifting) of_nat_less_iff of_nat_mult of_nat_numeral of_nat_add)
  then have "y < of_int (int (3 * b div 2)) + 1" using y(2) by simp
  then have "\<lfloor>y\<rfloor> \<le> int (3 * b div 2)" by (simp only: floor_le_iff)
  then have upper: "OnTimer_jitter b r \<le> 3 * b div 2" unfolding j by simp
  define m where "m = b * n div 10"
  have "10 * m \<le> b * n" "b * n \<le> 10 * m + 9" unfolding m_def by presburger+
  then have "(of_nat (10 * m) :: rat) \<le> of_nat (b * n)"
    "(of_nat (b * n) :: rat) \<le> of_nat (10 * m + 9)"
    by (simp_all only: of_nat_le_iff)
  then have "10 * (of_nat m :: rat) \<le> of_nat (b * n)"
    "(of_nat (b * n) :: rat) \<le> 10 * of_nat m + 9"
    by (simp_all only: of_nat_mult of_nat_add of_nat_numeral)
  define c :: rat where "c = of_nat (b * n) / 10"
  have c: "of_nat m \<le> c" "c \<le> of_nat m + 9 / 10"
    using \<open>10 * (of_nat m :: rat) \<le> of_nat (b * n)\<close>
      \<open>(of_nat (b * n) :: rat) \<le> 10 * of_nat m + 9\<close>
    unfolding c_def by linarith+
  have "(of_nat b :: rat) < 2 ^ 19"
    using assms(1) by (metis of_nat_less_iff of_nat_numeral of_nat_power)
  then have "3 * (of_nat b :: rat) / 2 ^ 24 < 1 / 10" by simp
  moreover have "\<bar>y - c\<bar> \<le> 3 * of_nat b / 2 ^ 24" using y(3) by (simp only: c_def)
  ultimately have e: "\<bar>y - c\<bar> < 1 / 10" by linarith
  have "of_nat m - 1 \<le> y" using e c(1) by linarith
  then have "of_int (int m - 1) \<le> y" by simp
  then have f1: "int m - 1 \<le> \<lfloor>y\<rfloor>" by (simp only: le_floor_iff)
  have "y < of_nat m + 1" using e c(2) by linarith
  then have "y < of_int (int m) + 1" by simp
  then have f2: "\<lfloor>y\<rfloor> \<le> int m" by (simp only: floor_le_iff)
  have f0: "0 \<le> \<lfloor>y\<rfloor>" using y0 by simp
  have near: "OnTimer_jitter b r = b * unat r div 10 \<or> OnTimer_jitter b r + 1 = b * unat r div 10"
    unfolding j using f0 f1 f2 by (simp add: m_def n_def) linarith
  show ?thesis using lower upper near y(1,2) by (simp add: p)
qed

text \<open>The 32-bit sum of the loop, read as a number.\<close>

lemma OnTimer_rate_unat:
  "unat (OnTimer_rate env now cs acc) =
     (unat acc + sum_list (map (\<lambda>kv. unat (GetTransmissionRate env (snd kv) now) div 1000) cs))
       mod 2 ^ 32"
proof (induction cs arbitrary: acc)
  case Nil
  show ?case using unsigned_less [of acc, where 'a = nat] by simp
next
  case (Cons kv cs)
  obtain k c where kv: "kv = (k, c)" by (cases kv)
  have step: "unat (acc + GetTransmissionRate env c now div 1000) =
      (unat acc + unat (GetTransmissionRate env c now) div 1000) mod 2 ^ 32"
    by (simp add: unat_word_ariths unat_div mod_add_right_eq)
  show ?case
    by (simp add: kv Cons.IH step mod_add_left_eq add.assoc)
qed

lemma OnTimer_interval_eq:
  "OnTimer_interval env peer now =
     (if consumers peer = [] \<or> rate_kbps env now (consumers peer) = 0
      then MaxVideoIntervalMs env
      else min (MaxVideoIntervalMs env) (360000 div rate_kbps env now (consumers peer)))"
proof -
  define rate where "rate = OnTimer_rate env now (consumers peer) 0"
  have r: "unat rate = rate_kbps env now (consumers peer)"
    by (simp add: rate_def OnTimer_rate_unat rate_kbps_def)
  have z: "rate = 0 \<longleftrightarrow> rate_kbps env now (consumers peer) = 0"
    using r by (metis unat_eq_0)
  have d: "unat ((360000 :: u32) div rate) = 360000 div rate_kbps env now (consumers peer)"
    by (simp add: unat_div r)
  show ?thesis
    by (simp add: OnTimer_interval_def Let_def d z flip: rate_def)
qed

lemma OnTimer_interval_le: "OnTimer_interval env peer now \<le> MaxVideoIntervalMs env"
  by (simp add: OnTimer_interval_eq)

text \<open>
  C2, amended. On a tick, without Consumers the base interval is the maximum video
  interval; with Consumers and their summed rate R in kbit/s (each rate divided by 1000
  rounding down, the sum in 32 bits) it is 360000 div R when R is not zero, and never more
  than the maximum. For a random integer r from 5 to 15 and a maximum below 2 ^ 19 ms, the
  single-precision product of the base and a tenth of r lies between 0.5 and 1.5 times
  the base, which is the range the comment in the code gives; the interval is a 64-bit
  unsigned number of milliseconds, so the timer is re-armed with the integral part of that
  product: base * r div 10 or one less, between base div 2 and 3 * base div 2.
\<close>

theorem RTCP_interval_law:
  assumes "MaxVideoIntervalMs env < 2 ^ 19" and "5 \<le> random" and "random \<le> 15"
  shows "OnTimer_interval env peer now =
           (if consumers peer = [] \<or> rate_kbps env now (consumers peer) = 0
            then MaxVideoIntervalMs env
            else min (MaxVideoIntervalMs env) (360000 div rate_kbps env now (consumers peer))) \<and>
         OnTimer env peer time random =
           SendRtcp env peer (ucast (ucast time :: u32)) @
           [Timer_Start
              (OnTimer_jitter (OnTimer_interval env peer (ucast (ucast time :: u32))) random)] \<and>
         OnTimer_interval env peer now div 2 \<le>
           OnTimer_jitter (OnTimer_interval env peer now) random \<and>
         OnTimer_jitter (OnTimer_interval env peer now) random \<le>
           3 * OnTimer_interval env peer now div 2 \<and>
         (OnTimer_jitter (OnTimer_interval env peer now) random =
            OnTimer_interval env peer now * unat random div 10 \<or>
          OnTimer_jitter (OnTimer_interval env peer now) random + 1 =
            OnTimer_interval env peer now * unat random div 10) \<and>
         of_nat (OnTimer_interval env peer now) / 2 \<le>
           OnTimer_product (OnTimer_interval env peer now) random \<and>
         OnTimer_product (OnTimer_interval env peer now) random \<le>
           3 * of_nat (OnTimer_interval env peer now) / 2 \<and>
         OnTimer_jitter (OnTimer_interval env peer now) random =
           nat \<lfloor>OnTimer_product (OnTimer_interval env peer now) random\<rfloor>"
proof -
  have "OnTimer_interval env peer now < 2 ^ 19"
    using OnTimer_interval_le [of env peer now] assms(1) by simp
  then show ?thesis
    using OnTimer_jitter_law [OF _ assms(2,3), of "OnTimer_interval env peer now"]
    by (simp add: OnTimer_interval_eq [symmetric] OnTimer_def Let_def
          OnTimer_jitter_def [symmetric])
qed

text \<open>
  On alice, whose Consumers send 500 and 1500 kbit/s: the base is 360000 div 2000 = 180;
  with the random integer 13 the timer is re-armed with 233, one less than 180 * 13 div 10.
\<close>

theorem RTCP_interval_law_witness:
  "MaxVideoIntervalMs stub < 2 ^ 19 \<and>
   OnTimer_interval stub alice 0 = 180 \<and>
   OnTimer stub alice 0 13 = SendRtcp stub alice 0 @ [Timer_Start 233] \<and>
   (180 div 2 \<le> (233 :: nat) \<and> (233 :: nat) \<le> 3 * 180 div 2) \<and>
   (233 :: nat) + 1 = 180 * unat (13 :: u32) div 10 \<and>
   (of_nat 180 / 2 \<le> OnTimer_product 180 13 \<and> OnTimer_product 180 13 \<le> 3 * of_nat 180 / 2)"
proof -
  have m: "MaxVideoIntervalMs stub < 2 ^ 19" by (simp add: stub_def)
  have i: "OnTimer_interval stub alice 0 = 180"
    by (simp add: OnTimer_interval_eq rate_kbps_def alice_def c200_def c201_def stub_def)
  have j: "OnTimer_jitter 180 13 = 233" by code_simp
  show ?thesis
    using RTCP_interval_law [OF m, of 13 alice 0 0] i j m by simp
qed

text \<open>
  The claim as it is written fails in each of its parts that the amended one changes.

  The re-armed interval: on alice with one Consumer sending 361 kbit/s the base is
  360000 div 361 = 997, and with the random integer 5 the timer is re-armed with 498,
  which is not 997 * 5 / 10 and lies below half of the base.

  The summed rate: with both Consumers of alice sending 500999 bit/s the sum is 1001.998
  kbit/s, but the loop adds 500 and 500; the base is 360, and with the random integer 15
  the timer is re-armed with 540, above 1.5 * 360000 / 1001.998.

  The 32-bit sum: with 1024 Consumers sending 4194304000 bit/s each the loop's sum is
  2 ^ 32, which is 0 in 32 bits; the base is the maximum, 1000, and with the random
  integer 10 the timer is re-armed with 1000, while 360000 divided by the summed rate is
  below a thousandth.
\<close>

theorem RTCP_interval_law_counterexample:
  "(OnTimer_interval stub361 alice 0 = 997 \<and>
    OnTimer stub361 alice 0 5 = SendRtcp stub361 alice 0 @ [Timer_Start 498] \<and>
    (498 :: rat) \<noteq> 997 * 5 / 10 \<and>
    (498 :: rat) < (1 / 2) * 997 \<and>
    (498 :: rat) < (1 / 2) * min (of_nat (MaxVideoIntervalMs stub361))
                               (360000 / summed_rate_kbps stub361 0 (consumers alice))) \<and>
   (summed_rate_kbps stub500999 0 (consumers alice) = 1001998 / 1000 \<and>
    OnTimer_interval stub500999 alice 0 = 360 \<and>
    OnTimer stub500999 alice 0 15 = SendRtcp stub500999 alice 0 @ [Timer_Start 540] \<and>
    (3 / 2) * min (of_nat (MaxVideoIntervalMs stub500999))
                  (360000 / summed_rate_kbps stub500999 0 (consumers alice)) < (540 :: rat)) \<and>
   (summed_rate_kbps stub_gbit 0 (consumers crowd) = 4294967296 \<and>
    OnTimer_interval stub_gbit crowd 0 = 1000 \<and>
    OnTimer stub_gbit crowd 0 10 = SendRtcp stub_gbit crowd 0 @ [Timer_Start 1000] \<and>
    (3 / 2) * min (of_nat (MaxVideoIntervalMs stub_gbit))
                  (360000 / summed_rate_kbps stub_gbit 0 (consumers crowd)) < (1000 :: rat))"
proof -
  have i1: "OnTimer_interval stub361 alice 0 = 997"
    by (simp add: OnTimer_interval_eq rate_kbps_def alice_def c200_def c201_def stub361_def
          stub_def)
  have j1: "OnTimer_jitter 997 5 = 498" by code_simp
  have s1: "summed_rate_kbps stub361 0 (consumers alice) = 361"
    by (simp add: summed_rate_kbps_def alice_def c200_def c201_def stub361_def stub_def)
  have m1: "MaxVideoIntervalMs stub361 = 1000" by (simp add: stub361_def stub_def)
  have part1: "OnTimer_interval stub361 alice 0 = 997 \<and>
    OnTimer stub361 alice 0 5 = SendRtcp stub361 alice 0 @ [Timer_Start 498] \<and>
    (498 :: rat) \<noteq> 997 * 5 / 10 \<and>
    (498 :: rat) < (1 / 2) * 997 \<and>
    (498 :: rat) < (1 / 2) * min (of_nat (MaxVideoIntervalMs stub361))
                               (360000 / summed_rate_kbps stub361 0 (consumers alice))"
    by (simp add: OnTimer_def Let_def i1 j1 s1 m1)
  have i2: "OnTimer_interval stub500999 alice 0 = 360"
    by (simp add: OnTimer_interval_eq rate_kbps_def alice_def stub500999_def stub_def)
  have j2: "OnTimer_jitter 360 15 = 540" by code_simp
  have s2: "summed_rate_kbps stub500999 0 (consumers alice) = 1001998 / 1000"
    by (simp add: summed_rate_kbps_def alice_def stub500999_def stub_def)
  have m2: "MaxVideoIntervalMs stub500999 = 1000" by (simp add: stub500999_def stub_def)
  have part2: "summed_rate_kbps stub500999 0 (consumers alice) = 1001998 / 1000 \<and>
    OnTimer_interval stub500999 alice 0 = 360 \<and>
    OnTimer stub500999 alice 0 15 = SendRtcp stub500999 alice 0 @ [Timer_Start 540] \<and>
    (3 / 2) * min (of_nat (MaxVideoIntervalMs stub500999))
                  (360000 / summed_rate_kbps stub500999 0 (consumers alice)) < (540 :: rat)"
    by (simp add: OnTimer_def Let_def i2 j2 s2 m2)
  have len: "length (consumers crowd) = 1024" and ne: "consumers crowd \<noteq> []"
    by (simp_all add: crowd_def)
  have r3: "rate_kbps stub_gbit 0 (consumers crowd) = 0"
    by (simp add: rate_kbps_def stub_gbit_def stub_def sum_list_triv len)
  have m3: "MaxVideoIntervalMs stub_gbit = 1000" by (simp add: stub_gbit_def stub_def)
  have i3: "OnTimer_interval stub_gbit crowd 0 = 1000"
    by (simp add: OnTimer_interval_eq r3 m3)
  have j3: "OnTimer_jitter 1000 10 = 1000" by code_simp
  have s3: "summed_rate_kbps stub_gbit 0 (consumers crowd) = 4294967296"
    by (simp add: summed_rate_kbps_def stub_gbit_def stub_def sum_list_triv len)
  have part3: "summed_rate_kbps stub_gbit 0 (consumers crowd) = 4294967296 \<and>
    OnTimer_interval stub_gbit crowd 0 = 1000 \<and>
    OnTimer stub_gbit crowd 0 10 = SendRtcp stub_gbit crowd 0 @ [Timer_Start 1000] \<and>
    (3 / 2) * min (of_nat (MaxVideoIntervalMs stub_gbit))
                  (360000 / summed_rate_kbps stub_gbit 0 (consumers crowd)) < (1000 :: rat)"
    by (simp add: OnTimer_def Let_def i3 j3 s3 m3)
  show ?thesis using part1 part2 part3 by blast
qed

end
